theory Spec2Isabelle
  imports Complex_Main
begin

section \<open>JavaScript values and the operations the relay uses\<close>

text \<open>
  The relay (the \<open>POST\<close> handler of \<open>app/api/chat/route.ts\<close>) works on the value
  that \<open>request.json()\<close> yields, which TypeScript only annotates as a \<open>ChatRequest\<close>:
  at run time it is any JSON value. The model therefore computes on JavaScript values.
  A string is the list of its code units, a number is the rational it denotes, and an
  object is the list of its own properties in insertion order (keys distinct, as
  \<open>JSON.parse\<close> produces them).
\<close>

datatype jsval =
    JUndefined
  | JNull
  | JBool bool
  | JNum rat
  | JStr string
  | JArr "jsval list"
  | JObj "(string \<times> jsval) list"

text \<open>Exceptions are values: every \<open>throw\<close> of the source is an \<open>Inl\<close>.\<close>

datatype exn = TypeError | SyntaxError | RangeError | Error string

definition bindE :: "exn + 'a \<Rightarrow> ('a \<Rightarrow> exn + 'b) \<Rightarrow> exn + 'b" where
  "bindE m f = (case m of Inl e \<Rightarrow> Inl e | Inr v \<Rightarrow> f v)"

text \<open>\<open>ToBoolean\<close>: what \<open>!v\<close>, \<open>v || w\<close> and \<open>v && w\<close> test.\<close>

fun truthy :: "jsval \<Rightarrow> bool" where
  "truthy JUndefined = False"
| "truthy JNull = False"
| "truthy (JBool b) = b"
| "truthy (JNum n) = (n \<noteq> 0)"
| "truthy (JStr s) = (s \<noteq> [])"
| "truthy (JArr xs) = True"
| "truthy (JObj kvs) = True"

text \<open>
  Property read \<open>v.k\<close>, for the property names this program reads (\<open>apiKey\<close>,
  \<open>model\<close>, \<open>messages\<close>, \<open>temperature\<close>, \<open>max_completion_tokens\<close>,
  \<open>response_format\<close>, \<open>role\<close>, \<open>content\<close>, \<open>error\<close>), none of which a prototype
  defines: reading from \<open>undefined\<close> or \<open>null\<close> throws, an object gives its own
  property or \<open>undefined\<close>, every other value gives \<open>undefined\<close>.
\<close>

fun get_prop :: "jsval \<Rightarrow> string \<Rightarrow> exn + jsval" where
  "get_prop JUndefined k = Inl TypeError"
| "get_prop JNull k = Inl TypeError"
| "get_prop (JObj kvs) k = Inr (case map_of kvs k of None \<Rightarrow> JUndefined | Some v \<Rightarrow> v)"
| "get_prop v k = Inr JUndefined"

text \<open>\<open>s.startsWith(p)\<close>, \<open>s.includes(p)\<close> and \<open>s.substring(0, n)\<close> on strings.\<close>

definition startsWith :: "string \<Rightarrow> string \<Rightarrow> bool" where
  "startsWith s p = (take (length p) s = p)"

fun str_includes :: "string \<Rightarrow> string \<Rightarrow> bool" where
  "str_includes [] p = (p = [])"
| "str_includes (c # cs) p = (startsWith (c # cs) p \<or> str_includes cs p)"

definition substring0 :: "string \<Rightarrow> nat \<Rightarrow> string" where
  "substring0 s n = take n s"

text \<open>
  The method call \<open>v.startsWith(p)\<close> on a value that need not be a string: only a
  string has the method, and calling what is not a function throws.
\<close>

definition js_startsWith :: "jsval \<Rightarrow> string \<Rightarrow> exn + bool" where
  "js_startsWith v p = (case v of JStr s \<Rightarrow> Inr (startsWith s p) | _ \<Rightarrow> Inl TypeError)"

text \<open>
  \<open>Array.prototype.find\<close> and \<open>Array.prototype.filter\<close> with a callback that may
  throw: elements are visited in order and the first exception ends the call.
\<close>

fun js_find :: "('a \<Rightarrow> exn + bool) \<Rightarrow> 'a list \<Rightarrow> exn + 'a option" where
  "js_find f [] = Inr None"
| "js_find f (x # xs) =
     (case f x of
        Inl e \<Rightarrow> Inl e
      | Inr b \<Rightarrow> if b then Inr (Some x) else js_find f xs)"

fun js_filter :: "('a \<Rightarrow> exn + bool) \<Rightarrow> 'a list \<Rightarrow> exn + 'a list" where
  "js_filter f [] = Inr []"
| "js_filter f (x # xs) =
     (case f x of
        Inl e \<Rightarrow> Inl e
      | Inr b \<Rightarrow>
          (case js_filter f xs of
             Inl e \<Rightarrow> Inl e
           | Inr ys \<Rightarrow> Inr (if b then x # ys else ys)))"

text \<open>
  \<open>ToString\<close>, which a template literal applies to each substitution. The rendering of
  a number is the platform's (\<open>nts\<close>). An array joins its elements with commas, \<open>null\<close>
  and \<open>undefined\<close> elements giving the empty string. An object built by \<open>JSON.parse\<close>
  inherits \<open>Object.prototype.toString\<close> unless it has an own \<open>toString\<close> property,
  which is then not callable, and neither is what \<open>valueOf\<close> gives a primitive.
\<close>

fun ToString :: "(rat \<Rightarrow> string) \<Rightarrow> jsval \<Rightarrow> exn + string"
  and join_comma :: "(rat \<Rightarrow> string) \<Rightarrow> jsval list \<Rightarrow> exn + string"
  and join_elem :: "(rat \<Rightarrow> string) \<Rightarrow> jsval \<Rightarrow> exn + string" where
  "ToString nts JUndefined = Inr ''undefined''"
| "ToString nts JNull = Inr ''null''"
| "ToString nts (JBool b) = Inr (if b then ''true'' else ''false'')"
| "ToString nts (JNum n) = Inr (nts n)"
| "ToString nts (JStr s) = Inr s"
| "ToString nts (JArr xs) = join_comma nts xs"
| "ToString nts (JObj kvs) =
     (if ''toString'' \<in> fst ` set kvs then Inl TypeError else Inr ''[object Object]'')"
| "join_comma nts [] = Inr []"
| "join_comma nts [x] = join_elem nts x"
| "join_comma nts (x # y # ys) =
     (case join_elem nts x of
        Inl e \<Rightarrow> Inl e
      | Inr s \<Rightarrow>
          (case join_comma nts (y # ys) of
             Inl e \<Rightarrow> Inl e
           | Inr r \<Rightarrow> Inr (s @ '','' @ r)))"
| "join_elem nts JUndefined = Inr []"
| "join_elem nts JNull = Inr []"
| "join_elem nts (JBool b) = ToString nts (JBool b)"
| "join_elem nts (JNum n) = ToString nts (JNum n)"
| "join_elem nts (JStr s) = ToString nts (JStr s)"
| "join_elem nts (JArr xs) = ToString nts (JArr xs)"
| "join_elem nts (JObj kvs) = ToString nts (JObj kvs)"

text \<open>Decimal rendering of an HTTP status code, as \<open>`${response.status}`\<close> gives it.\<close>

definition digit_char :: "nat \<Rightarrow> char" where
  "digit_char d = ''0123456789'' ! d"

function string_of_nat :: "nat \<Rightarrow> string" where
  "string_of_nat n =
     (if n < 10 then [digit_char n]
      else string_of_nat (n div 10) @ [digit_char (n mod 10)])"
  by pat_completeness auto
termination
  by (relation "measure id") auto

declare string_of_nat.simps [simp del]

section \<open>The platform: outbound calls, upstream responses, replies\<close>

text \<open>
  An outbound call is the argument list of \<open>fetch\<close>: the URL, the method, the header
  object and the value handed to \<open>JSON.stringify\<close> for the body. A header value is
  the JavaScript value the source writes for it.
\<close>

record outbound =
  url :: string
  http_method :: string
  headers :: "(string \<times> jsval) list"
  payload :: jsval

text \<open>
  What \<open>fetch\<close> resolves to: the status, the status text, and what awaiting
  \<open>response.text()\<close> gives (the body text, or the exception of a failed read).
\<close>

record Response =
  status :: nat
  statusText :: string
  responseText :: "exn + string"

definition ok :: "Response \<Rightarrow> bool" where
  "ok r = (200 \<le> status r \<and> status r \<le> 299)"

text \<open>
  The platform functions are parameters of the model: \<open>JSON.parse\<close> (\<open>None\<close> when it
  throws a \<open>SyntaxError\<close>), \<open>JSON.stringify\<close>, the rendering of a number as a string,
  and the behaviour of the network behind \<open>fetch\<close> (\<open>Inl\<close> when the promise rejects).
\<close>

record runtime =
  JSON_parse :: "string \<Rightarrow> jsval option"
  JSON_stringify :: "jsval \<Rightarrow> string"
  Number_toString :: "rat \<Rightarrow> string"
  network :: "outbound \<Rightarrow> exn + Response"

text \<open>
  A computation that may call \<open>fetch\<close> returns the calls it made, in order, and its
  result. \<open>console.error\<close> is the only other effect of the source and is not recorded.
\<close>

type_synonym 'a effect = "outbound list \<times> (exn + 'a)"

definition fetch :: "runtime \<Rightarrow> outbound \<Rightarrow> Response effect" where
  "fetch rt call = ([call], network rt call)"

text \<open>
  A reply is what \<open>NextResponse.json\<close> builds from the value to serialise and the status
  (200 when the source gives none). It is \<open>Response.json\<close> of the platform, whose
  initialisation throws a \<open>RangeError\<close> for a status outside 200 to 599 and a
  \<open>TypeError\<close> for a null-body status given together with a body, which every call of
  the handler gives.
\<close>

record reply =
  reply_status :: nat
  reply_body :: jsval

definition null_body_status :: "nat \<Rightarrow> bool" where
  "null_body_status st = (st = 101 \<or> st = 204 \<or> st = 205 \<or> st = 304)"

definition NextResponse_json :: "jsval \<Rightarrow> nat \<Rightarrow> exn + reply" where
  "NextResponse_json v st =
     (if st < 200 \<or> 599 < st then Inl RangeError
      else if null_body_status st then Inl TypeError
      else Inr \<lparr>reply_status = st, reply_body = v\<rparr>)"

text \<open>The bytes of a reply: \<open>NextResponse.json\<close> sends \<open>JSON.stringify\<close> of the value.\<close>

definition reply_text :: "runtime \<Rightarrow> reply \<Rightarrow> string" where
  "reply_text rt r = JSON_stringify rt (reply_body r)"

definition error_message :: "string \<Rightarrow> jsval" where
  "error_message m = JObj [(''error'', JObj [(''message'', JStr m)])]"

text \<open>The template literal \<open>`HTTP ${response.status}: ${response.statusText}`\<close>.\<close>

definition status_line :: "Response \<Rightarrow> string" where
  "status_line r = ''HTTP '' @ string_of_nat (status r) @ '': '' @ statusText r"

section \<open>The provider adapters (Strategy-Pattern revision)\<close>

text \<open>
  The abstract class \<open>LLMProvider\<close> has two methods; an adapter is the pair of its
  implementations.
\<close>

record LLMProvider =
  canHandle :: "jsval \<Rightarrow> exn + bool"
  makeRequest :: "jsval \<Rightarrow> Response effect"

text \<open>
  The spread \<open>...(request.response_format && { response_format: request.response_format })\<close>
  adds the property when the value is truthy and nothing otherwise (spreading a falsy
  primitive adds no property).
\<close>

definition spread_response_format :: "jsval \<Rightarrow> (string \<times> jsval) list" where
  "spread_response_format rf = (if truthy rf then [(''response_format'', rf)] else [])"

text \<open>\<open>request.messages.filter(...)\<close> and \<open>.find(...)\<close>: only an array has the methods.\<close>

definition is_role :: "string \<Rightarrow> jsval \<Rightarrow> exn + bool" where
  "is_role r msg = bindE (get_prop msg ''role'') (\<lambda>v. Inr (v = JStr r))"

definition messages_filter :: "jsval \<Rightarrow> (jsval \<Rightarrow> exn + bool) \<Rightarrow> exn + jsval" where
  "messages_filter ms f =
     (case ms of
        JArr xs \<Rightarrow> bindE (js_filter f xs) (\<lambda>ys. Inr (JArr ys))
      | _ \<Rightarrow> Inl TypeError)"

definition messages_find :: "jsval \<Rightarrow> (jsval \<Rightarrow> exn + bool) \<Rightarrow> exn + jsval" where
  "messages_find ms f =
     (case ms of
        JArr xs \<Rightarrow>
          bindE (js_find f xs) (\<lambda>r. Inr (case r of None \<Rightarrow> JUndefined | Some m \<Rightarrow> m))
      | _ \<Rightarrow> Inl TypeError)"

text \<open>The optional chain \<open>v?.content\<close>.\<close>

definition optional_content :: "jsval \<Rightarrow> exn + jsval" where
  "optional_content v =
     (if v = JUndefined \<or> v = JNull then Inr JUndefined else get_prop v ''content'')"

subsection \<open>ClaudeProvider\<close>

definition ClaudeProvider_canHandle :: "jsval \<Rightarrow> exn + bool" where
  "ClaudeProvider_canHandle model = js_startsWith model ''claude-''"

definition ClaudeProvider_requestBody :: "jsval \<Rightarrow> exn + jsval" where
  "ClaudeProvider_requestBody request =
     bindE (get_prop request ''model'') (\<lambda>model.
     bindE (get_prop request ''max_completion_tokens'') (\<lambda>max_tokens.
     bindE (get_prop request ''temperature'') (\<lambda>temperature.
     bindE (get_prop request ''messages'') (\<lambda>ms.
     bindE (messages_filter ms (is_role ''user'')) (\<lambda>user_messages.
     bindE (get_prop request ''messages'') (\<lambda>ms'.
     bindE (messages_find ms' (is_role ''system'')) (\<lambda>found.
     bindE (optional_content found) (\<lambda>content.
       Inr (JObj
         [(''model'', model),
          (''max_tokens'', max_tokens),
          (''temperature'', temperature),
          (''messages'', user_messages),
          (''system'',
             if truthy content then content else JStr ''You are a helpful assistant.'')])))))))))"

definition ClaudeProvider_makeRequest :: "runtime \<Rightarrow> jsval \<Rightarrow> Response effect" where
  "ClaudeProvider_makeRequest rt request =
     (case ClaudeProvider_requestBody request of
        Inl e \<Rightarrow> ([], Inl e)
      | Inr requestBody \<Rightarrow>
          (case get_prop request ''apiKey'' of
             Inl e \<Rightarrow> ([], Inl e)
           | Inr apiKey \<Rightarrow>
               fetch rt
                 \<lparr>url = ''https://api.anthropic.com/v1/messages'',
                  http_method = ''POST'',
                  headers =
                    [(''Content-Type'', JStr ''application/json''),
                     (''x-api-key'', apiKey),
                     (''anthropic-version'', JStr ''2023-06-01'')],
                  payload = requestBody\<rparr>))"

definition ClaudeProvider :: "runtime \<Rightarrow> LLMProvider" where
  "ClaudeProvider rt =
     \<lparr>canHandle = ClaudeProvider_canHandle, makeRequest = ClaudeProvider_makeRequest rt\<rparr>"

subsection \<open>DeepseekProvider\<close>

definition DeepseekProvider_canHandle :: "jsval \<Rightarrow> exn + bool" where
  "DeepseekProvider_canHandle model = js_startsWith model ''deepseek-''"

definition DeepseekProvider_requestBody :: "jsval \<Rightarrow> exn + jsval" where
  "DeepseekProvider_requestBody request =
     bindE (get_prop request ''model'') (\<lambda>model.
     bindE (get_prop request ''messages'') (\<lambda>ms.
     bindE (get_prop request ''temperature'') (\<lambda>temperature.
     bindE (get_prop request ''max_completion_tokens'') (\<lambda>max_tokens.
     bindE (get_prop request ''response_format'') (\<lambda>rf.
       Inr (JObj
         ([(''model'', model),
           (''messages'', ms),
           (''temperature'', temperature),
           (''max_tokens'', max_tokens)]
          @ spread_response_format rf)))))))"

text \<open>The template literal \<open>`Bearer ${request.apiKey}`\<close>.\<close>

definition bearer :: "runtime \<Rightarrow> jsval \<Rightarrow> exn + jsval" where
  "bearer rt request =
     bindE (get_prop request ''apiKey'') (\<lambda>apiKey.
     bindE (ToString (Number_toString rt) apiKey) (\<lambda>s.
       Inr (JStr (''Bearer '' @ s))))"

definition DeepseekProvider_makeRequest :: "runtime \<Rightarrow> jsval \<Rightarrow> Response effect" where
  "DeepseekProvider_makeRequest rt request =
     (case DeepseekProvider_requestBody request of
        Inl e \<Rightarrow> ([], Inl e)
      | Inr requestBody \<Rightarrow>
          (case bearer rt request of
             Inl e \<Rightarrow> ([], Inl e)
           | Inr authorization \<Rightarrow>
               fetch rt
                 \<lparr>url = ''https://api.deepseek.com/chat/completions'',
                  http_method = ''POST'',
                  headers =
                    [(''Content-Type'', JStr ''application/json''),
                     (''Accept'', JStr ''application/json''),
                     (''Authorization'', authorization)],
                  payload = requestBody\<rparr>))"

definition DeepseekProvider :: "runtime \<Rightarrow> LLMProvider" where
  "DeepseekProvider rt =
     \<lparr>canHandle = DeepseekProvider_canHandle, makeRequest = DeepseekProvider_makeRequest rt\<rparr>"

subsection \<open>OpenAIProvider, the fallback\<close>

definition OpenAIProvider_canHandle :: "jsval \<Rightarrow> exn + bool" where
  "OpenAIProvider_canHandle model = Inr True"

definition OpenAIProvider_requestBody :: "jsval \<Rightarrow> exn + jsval" where
  "OpenAIProvider_requestBody request =
     bindE (get_prop request ''model'') (\<lambda>model.
     bindE (get_prop request ''messages'') (\<lambda>ms.
     bindE (get_prop request ''temperature'') (\<lambda>temperature.
     bindE (get_prop request ''max_completion_tokens'') (\<lambda>max_tokens.
     bindE (get_prop request ''response_format'') (\<lambda>rf.
       Inr (JObj
         ([(''model'', model),
           (''messages'', ms),
           (''temperature'', temperature),
           (''max_completion_tokens'', max_tokens)]
          @ spread_response_format rf)))))))"

definition OpenAIProvider_makeRequest :: "runtime \<Rightarrow> jsval \<Rightarrow> Response effect" where
  "OpenAIProvider_makeRequest rt request =
     (case OpenAIProvider_requestBody request of
        Inl e \<Rightarrow> ([], Inl e)
      | Inr requestBody \<Rightarrow>
          (case bearer rt request of
             Inl e \<Rightarrow> ([], Inl e)
           | Inr authorization \<Rightarrow>
               fetch rt
                 \<lparr>url = ''https://api.openai.com/v1/chat/completions'',
                  http_method = ''POST'',
                  headers =
                    [(''Content-Type'', JStr ''application/json''),
                     (''Authorization'', authorization)],
                  payload = requestBody\<rparr>))"

definition OpenAIProvider :: "runtime \<Rightarrow> LLMProvider" where
  "OpenAIProvider rt =
     \<lparr>canHandle = OpenAIProvider_canHandle, makeRequest = OpenAIProvider_makeRequest rt\<rparr>"

subsection \<open>LLMProviderFactory\<close>

text \<open>
  The static field \<open>providers\<close> is the state of the factory; its initial value is the
  list below, and \<open>registerProvider\<close> is the only code that changes it.
\<close>

definition LLMProviderFactory_providers :: "runtime \<Rightarrow> LLMProvider list" where
  "LLMProviderFactory_providers rt = [ClaudeProvider rt, DeepseekProvider rt, OpenAIProvider rt]"

definition getProvider :: "runtime \<Rightarrow> LLMProvider list \<Rightarrow> jsval \<Rightarrow> exn + LLMProvider" where
  "getProvider rt providers model =
     (case js_find (\<lambda>p. canHandle p model) providers of
        Inl e \<Rightarrow> Inl e
      | Inr None \<Rightarrow>
          (case ToString (Number_toString rt) model of
             Inl e \<Rightarrow> Inl e
           | Inr s \<Rightarrow> Inl (Error (''No provider found for model: '' @ s)))
      | Inr (Some provider) \<Rightarrow> Inr provider)"

text \<open>
  \<open>this.providers.splice(-1, 0, provider)\<close>: the start index is \<open>max (len - 1) 0\<close>,
  nothing is removed, and the provider is inserted there.
\<close>

definition registerProvider :: "LLMProvider \<Rightarrow> LLMProvider list \<Rightarrow> LLMProvider list" where
  "registerProvider provider providers =
     (let start = nat (max (int (length providers) - 1) 0)
      in take start providers @ [provider] @ drop start providers)"

section \<open>The relay endpoint\<close>

text \<open>
  The inbound request is what awaiting \<open>request.json()\<close> gives: the parsed body, or
  the exception thrown for a body that is not JSON.
\<close>

record NextRequest =
  json :: "exn + jsval"

text \<open>
  The guard of the validation, with the short-circuit order of \<open>||\<close>:
  \<open>!body.apiKey || !body.model || !body.messages || body.temperature === undefined
  || body.max_completion_tokens === undefined\<close>.
\<close>

definition missing_required_fields :: "jsval \<Rightarrow> exn + bool" where
  "missing_required_fields body =
     bindE (get_prop body ''apiKey'') (\<lambda>apiKey.
       if \<not> truthy apiKey then Inr True else
     bindE (get_prop body ''model'') (\<lambda>model.
       if \<not> truthy model then Inr True else
     bindE (get_prop body ''messages'') (\<lambda>ms.
       if \<not> truthy ms then Inr True else
     bindE (get_prop body ''temperature'') (\<lambda>temperature.
       if temperature = JUndefined then Inr True else
     bindE (get_prop body ''max_completion_tokens'') (\<lambda>max_tokens.
       Inr (max_tokens = JUndefined))))))"

text \<open>
  The branch \<open>if (!response.ok)\<close>. \<open>errorData\<close> is the parsed body, or the object
  synthesized when the text is not JSON, or the one synthesized when the body cannot be
  read; reading \<open>errorData.error\<close> is outside both inner \<open>try\<close> blocks.
\<close>

definition errorData :: "runtime \<Rightarrow> Response \<Rightarrow> jsval" where
  "errorData rt response =
     (case responseText response of
        Inl textError \<Rightarrow>
          JObj [(''error'', JObj [(''message'', JStr (status_line response))])]
      | Inr txt \<Rightarrow>
          (case JSON_parse rt txt of
             Some v \<Rightarrow> v
           | None \<Rightarrow>
               JObj [(''error'', JObj
                 [(''message'', JStr (status_line response)),
                  (''details'',
                     JStr (if str_includes txt ''<!DOCTYPE''
                           then ''Received HTML error page instead of JSON''
                           else substring0 txt 200))])]))"

definition upstream_error_reply :: "runtime \<Rightarrow> Response \<Rightarrow> exn + reply" where
  "upstream_error_reply rt response =
     bindE (get_prop (errorData rt response) ''error'') (\<lambda>err.
       NextResponse_json
         (JObj [(''error'',
            if truthy err then err
            else JObj [(''message'', JStr (status_line response))])])
         (status response))"

text \<open>The rest of the handler, for a response with \<open>response.ok\<close>.\<close>

definition upstream_success_reply :: "runtime \<Rightarrow> Response \<Rightarrow> exn + reply" where
  "upstream_success_reply rt response =
     (case responseText response of
        Inl parseError \<Rightarrow>
          NextResponse_json (error_message ''Invalid JSON response from LLM provider'') 502
      | Inr txt \<Rightarrow>
          (case JSON_parse rt txt of
             None \<Rightarrow>
               NextResponse_json (error_message ''Invalid JSON response from LLM provider'') 502
           | Some data \<Rightarrow> NextResponse_json data 200))"

definition relay_response :: "runtime \<Rightarrow> Response \<Rightarrow> exn + reply" where
  "relay_response rt response =
     (if \<not> ok response then upstream_error_reply rt response
      else upstream_success_reply rt response)"

text \<open>
  The body of the outer \<open>try\<close>, up to the upstream response: validation, the choice of
  the provider and its call. The result is the early reply of the validation, or the
  upstream response.
\<close>

definition dispatch :: "runtime \<Rightarrow> LLMProvider list \<Rightarrow> NextRequest \<Rightarrow> (reply + Response) effect" where
  "dispatch rt providers request =
     (case json request of
        Inl e \<Rightarrow> ([], Inl e)
      | Inr body \<Rightarrow>
          (case missing_required_fields body of
             Inl e \<Rightarrow> ([], Inl e)
           | Inr True \<Rightarrow>
               (case NextResponse_json (error_message ''Missing required fields'') 400 of
                  Inl e \<Rightarrow> ([], Inl e)
                | Inr early \<Rightarrow> ([], Inr (Inl early)))
           | Inr False \<Rightarrow>
               (case bindE (get_prop body ''model'') (getProvider rt providers) of
                  Inl e \<Rightarrow> ([], Inl e)
                | Inr provider \<Rightarrow>
                    (case makeRequest provider body of
                       (calls, Inl e) \<Rightarrow> (calls, Inl e)
                     | (calls, Inr response) \<Rightarrow> (calls, Inr (Inr response))))))"

text \<open>
  The handler: every exception of the outer \<open>try\<close> ends in the reply of its \<open>catch\<close>.
  The result is the list of outbound calls and the reply, or the exception that leaves
  the handler (only the \<open>catch\<close> block itself could throw one).
\<close>

definition internal_server_error :: "exn + reply" where
  "internal_server_error = NextResponse_json (error_message ''Internal server error'') 500"

definition POST ::
  "runtime \<Rightarrow> LLMProvider list \<Rightarrow> NextRequest \<Rightarrow> outbound list \<times> (exn + reply)" where
  "POST rt providers request =
     (case dispatch rt providers request of
        (calls, Inl e) \<Rightarrow> (calls, internal_server_error)
      | (calls, Inr (Inl early)) \<Rightarrow> (calls, Inr early)
      | (calls, Inr (Inr response)) \<Rightarrow>
          (case relay_response rt response of
             Inl e \<Rightarrow> (calls, internal_server_error)
           | Inr r \<Rightarrow> (calls, Inr r)))"

section \<open>The earlier revision: inline if/else\<close>

text \<open>
  The revision of the handler before the Strategy Pattern: the same validation, then
  an \<open>if\<close>/\<open>else if\<close>/\<open>else\<close> on \<open>isClaudeModel\<close> and \<open>isDeepseekModel\<close> with the
  request bodies built in place, and a response handling that awaits
  \<open>response.json()\<close> without a \<open>try\<close> of its own.
\<close>

definition isClaudeModel :: "jsval \<Rightarrow> exn + bool" where
  "isClaudeModel model = js_startsWith model ''claude-''"

definition isDeepseekModel :: "jsval \<Rightarrow> exn + bool" where
  "isDeepseekModel model = js_startsWith model ''deepseek-''"

definition inline_claude :: "runtime \<Rightarrow> jsval \<Rightarrow> Response effect" where
  "inline_claude rt body =
     (case
        bindE (get_prop body ''model'') (\<lambda>model.
        bindE (get_prop body ''max_completion_tokens'') (\<lambda>max_tokens.
        bindE (get_prop body ''temperature'') (\<lambda>temperature.
        bindE (get_prop body ''messages'') (\<lambda>ms.
        bindE (messages_filter ms (is_role ''user'')) (\<lambda>user_messages.
        bindE (get_prop body ''messages'') (\<lambda>ms'.
        bindE (messages_find ms' (is_role ''system'')) (\<lambda>found.
        bindE (optional_content found) (\<lambda>content.
        bindE (get_prop body ''apiKey'') (\<lambda>apiKey.
          Inr \<lparr>url = ''https://api.anthropic.com/v1/messages'',
               http_method = ''POST'',
               headers =
                 [(''Content-Type'', JStr ''application/json''),
                  (''x-api-key'', apiKey),
                  (''anthropic-version'', JStr ''2023-06-01'')],
               payload = JObj
                 [(''model'', model),
                  (''max_tokens'', max_tokens),
                  (''temperature'', temperature),
                  (''messages'', user_messages),
                  (''system'',
                     if truthy content then content
                     else JStr ''You are a helpful assistant.'')]\<rparr>)))))))))
      of Inl e \<Rightarrow> ([], Inl e) | Inr call \<Rightarrow> fetch rt call)"

definition inline_deepseek :: "runtime \<Rightarrow> jsval \<Rightarrow> Response effect" where
  "inline_deepseek rt body =
     (case
        bindE (get_prop body ''model'') (\<lambda>model.
        bindE (get_prop body ''messages'') (\<lambda>ms.
        bindE (get_prop body ''temperature'') (\<lambda>temperature.
        bindE (get_prop body ''max_completion_tokens'') (\<lambda>max_tokens.
        bindE (get_prop body ''response_format'') (\<lambda>rf.
        bindE (bearer rt body) (\<lambda>authorization.
          Inr \<lparr>url = ''https://api.deepseek.com/chat/completions'',
               http_method = ''POST'',
               headers =
                 [(''Content-Type'', JStr ''application/json''),
                  (''Accept'', JStr ''application/json''),
                  (''Authorization'', authorization)],
               payload = JObj
                 ([(''model'', model),
                   (''messages'', ms),
                   (''temperature'', temperature),
                   (''max_tokens'', max_tokens)]
                  @ spread_response_format rf)\<rparr>))))))
      of Inl e \<Rightarrow> ([], Inl e) | Inr call \<Rightarrow> fetch rt call)"

definition inline_openai :: "runtime \<Rightarrow> jsval \<Rightarrow> Response effect" where
  "inline_openai rt body =
     (case
        bindE (get_prop body ''model'') (\<lambda>model.
        bindE (get_prop body ''messages'') (\<lambda>ms.
        bindE (get_prop body ''temperature'') (\<lambda>temperature.
        bindE (get_prop body ''max_completion_tokens'') (\<lambda>max_tokens.
        bindE (get_prop body ''response_format'') (\<lambda>rf.
        bindE (bearer rt body) (\<lambda>authorization.
          Inr \<lparr>url = ''https://api.openai.com/v1/chat/completions'',
               http_method = ''POST'',
               headers =
                 [(''Content-Type'', JStr ''application/json''),
                  (''Authorization'', authorization)],
               payload = JObj
                 ([(''model'', model),
                   (''messages'', ms),
                   (''temperature'', temperature),
                   (''max_completion_tokens'', max_tokens)]
                  @ spread_response_format rf)\<rparr>))))))
      of Inl e \<Rightarrow> ([], Inl e) | Inr call \<Rightarrow> fetch rt call)"

definition inline_dispatch :: "runtime \<Rightarrow> NextRequest \<Rightarrow> (reply + Response) effect" where
  "inline_dispatch rt request =
     (case json request of
        Inl e \<Rightarrow> ([], Inl e)
      | Inr body \<Rightarrow>
          (case missing_required_fields body of
             Inl e \<Rightarrow> ([], Inl e)
           | Inr True \<Rightarrow>
               (case NextResponse_json (error_message ''Missing required fields'') 400 of
                  Inl e \<Rightarrow> ([], Inl e)
                | Inr early \<Rightarrow> ([], Inr (Inl early)))
           | Inr False \<Rightarrow>
               (case bindE (get_prop body ''model'') isClaudeModel of
                  Inl e \<Rightarrow> ([], Inl e)
                | Inr True \<Rightarrow>
                    (case inline_claude rt body of
                       (calls, Inl e) \<Rightarrow> (calls, Inl e)
                     | (calls, Inr response) \<Rightarrow> (calls, Inr (Inr response)))
                | Inr False \<Rightarrow>
                    (case bindE (get_prop body ''model'') isDeepseekModel of
                       Inl e \<Rightarrow> ([], Inl e)
                     | Inr True \<Rightarrow>
                         (case inline_deepseek rt body of
                            (calls, Inl e) \<Rightarrow> (calls, Inl e)
                          | (calls, Inr response) \<Rightarrow> (calls, Inr (Inr response)))
                     | Inr False \<Rightarrow>
                         (case inline_openai rt body of
                            (calls, Inl e) \<Rightarrow> (calls, Inl e)
                          | (calls, Inr response) \<Rightarrow> (calls, Inr (Inr response)))))))"

text \<open>\<open>await response.json()\<close>: the body text parsed, or the exception of either step.\<close>

definition response_json :: "runtime \<Rightarrow> Response \<Rightarrow> exn + jsval" where
  "response_json rt response =
     bindE (responseText response) (\<lambda>txt.
       case JSON_parse rt txt of None \<Rightarrow> Inl SyntaxError | Some v \<Rightarrow> Inr v)"

definition inline_response :: "runtime \<Rightarrow> Response \<Rightarrow> exn + reply" where
  "inline_response rt response =
     (if \<not> ok response then
        bindE (response_json rt response) (\<lambda>errorData.
        bindE (get_prop errorData ''error'') (\<lambda>err.
          NextResponse_json
            (JObj [(''error'',
               if truthy err then err
               else JObj [(''message'', JStr (status_line response))])])
            (status response)))
      else
        bindE (response_json rt response) (\<lambda>data. NextResponse_json data 200))"

definition POST_inline :: "runtime \<Rightarrow> NextRequest \<Rightarrow> outbound list \<times> (exn + reply)" where
  "POST_inline rt request =
     (case inline_dispatch rt request of
        (calls, Inl e) \<Rightarrow> (calls, internal_server_error)
      | (calls, Inr (Inl early)) \<Rightarrow> (calls, Inr early)
      | (calls, Inr (Inr response)) \<Rightarrow>
          (case inline_response rt response of
             Inl e \<Rightarrow> (calls, internal_server_error)
           | Inr r \<Rightarrow> (calls, Inr r)))"

section \<open>Well-typed requests\<close>

text \<open>
  The interface \<open>ChatRequest\<close> of the source, and the JavaScript value of a request of
  that type (the properties in the order of the interface; \<open>response_format\<close> is
  optional and absent when not given).
\<close>

datatype role = System | User

record message =
  role :: role
  content :: string

datatype format_type = Text | Json_object

record ChatRequest =
  apiKey :: string
  model :: string
  messages :: "message list"
  response_format :: "format_type option"
  temperature :: rat
  max_completion_tokens :: rat

definition role_js :: "role \<Rightarrow> jsval" where
  "role_js r = JStr (case r of System \<Rightarrow> ''system'' | User \<Rightarrow> ''user'')"

definition message_js :: "message \<Rightarrow> jsval" where
  "message_js m = JObj [(''role'', role_js (role m)), (''content'', JStr (content m))]"

definition response_format_js :: "format_type \<Rightarrow> jsval" where
  "response_format_js t =
     JObj [(''type'', JStr (case t of Text \<Rightarrow> ''text'' | Json_object \<Rightarrow> ''json_object''))]"

definition ChatRequest_js :: "ChatRequest \<Rightarrow> jsval" where
  "ChatRequest_js r =
     JObj
       ([(''apiKey'', JStr (apiKey r)),
         (''model'', JStr (model r)),
         (''messages'', JArr (map message_js (messages r)))]
        @ (case response_format r of
             None \<Rightarrow> []
           | Some t \<Rightarrow> [(''response_format'', response_format_js t)])
        @ [(''temperature'', JNum (temperature r)),
           (''max_completion_tokens'', JNum (max_completion_tokens r))])"

definition chat_request :: "ChatRequest \<Rightarrow> NextRequest" where
  "chat_request r = \<lparr>json = Inr (ChatRequest_js r)\<rparr>"

text \<open>The vocabulary of the properties below, on well-typed requests and on values.\<close>

definition with_role :: "role \<Rightarrow> message list \<Rightarrow> message list" where
  "with_role r ms = filter (\<lambda>m. role m = r) ms"

definition first_with_role :: "role \<Rightarrow> message list \<Rightarrow> message option" where
  "first_with_role r ms = find (\<lambda>m. role m = r) ms"

definition has_property :: "jsval \<Rightarrow> string \<Rightarrow> bool" where
  "has_property v k = (case v of JObj kvs \<Rightarrow> k \<in> fst ` set kvs | _ \<Rightarrow> False)"

fun is_string :: "jsval \<Rightarrow> bool" where
  "is_string (JStr s) = True"
| "is_string v = False"

fun is_number :: "jsval \<Rightarrow> bool" where
  "is_number (JNum n) = True"
| "is_number v = False"

fun is_array :: "jsval \<Rightarrow> bool" where
  "is_array (JArr xs) = True"
| "is_array v = False"

text \<open>
  The primitive types the interface \<open>ChatRequest\<close> declares for the five required
  properties, as a test on a parsed body.
\<close>

definition field_is :: "(jsval \<Rightarrow> bool) \<Rightarrow> jsval \<Rightarrow> string \<Rightarrow> bool" where
  "field_is P body k = (case get_prop body k of Inl e \<Rightarrow> False | Inr v \<Rightarrow> P v)"

definition required_fields_typed :: "jsval \<Rightarrow> bool" where
  "required_fields_typed body =
     (field_is is_string body ''apiKey'' \<and>
      field_is is_string body ''model'' \<and>
      field_is is_array body ''messages'' \<and>
      field_is is_number body ''temperature'' \<and>
      field_is is_number body ''max_completion_tokens'')"

section \<open>Concrete inputs\<close>

text \<open>
  Stand-ins for the platform, to evaluate the model on concrete inputs: they agree with
  \<open>JSON.parse\<close> and \<open>JSON.stringify\<close> on the texts and values used below (every other
  text is taken as not JSON), the upstream answers every call with the given response,
  and the rendering of numbers is not exercised.
\<close>

definition sample_parse :: "string \<Rightarrow> jsval option" where
  \<open>sample_parse s =
     (if s = ''null'' then Some JNull
      else if s = ''{}'' \<or> s = ''{ }'' then Some (JObj [])
      else if s = ''{"error":{"message":"Incorrect API key provided"}}''
        then Some (JObj [(''error'', JObj [(''message'', JStr ''Incorrect API key provided'')])])
      else if s = ''{"message":"Not Found"}''
        then Some (JObj [(''message'', JStr ''Not Found'')])
      else None)\<close>

definition sample_stringify :: "jsval \<Rightarrow> string" where
  "sample_stringify v = (if v = JObj [] then ''{}'' else ''null'')"

definition sample_runtime :: "Response \<Rightarrow> runtime" where
  "sample_runtime response =
     \<lparr>JSON_parse = sample_parse,
      JSON_stringify = sample_stringify,
      Number_toString = (\<lambda>n. ''0''),
      network = (\<lambda>call. Inr response)\<rparr>"

definition claude_request :: ChatRequest where
  "claude_request =
     \<lparr>apiKey = ''k'',
      model = ''claude-sonnet-4-20250514'',
      messages = [\<lparr>role = System, content = ''Be terse.''\<rparr>, \<lparr>role = User, content = ''Hi''\<rparr>],
      response_format = None,
      temperature = 1 / 2,
      max_completion_tokens = 100\<rparr>"

definition gpt_request :: ChatRequest where
  "gpt_request =
     \<lparr>apiKey = ''k'',
      model = ''gpt-4.1'',
      messages = [\<lparr>role = System, content = ''Be terse.''\<rparr>, \<lparr>role = User, content = ''Hi''\<rparr>],
      response_format = Some Json_object,
      temperature = 1,
      max_completion_tokens = 2048\<rparr>"

definition gpt_call :: outbound where
  "gpt_call =
     \<lparr>url = ''https://api.openai.com/v1/chat/completions'',
      http_method = ''POST'',
      headers =
        [(''Content-Type'', JStr ''application/json''),
         (''Authorization'', JStr ''Bearer k'')],
      payload = JObj
        [(''model'', JStr ''gpt-4.1''),
         (''messages'', JArr
            [JObj [(''role'', JStr ''system''), (''content'', JStr ''Be terse.'')],
             JObj [(''role'', JStr ''user''), (''content'', JStr ''Hi'')]]),
         (''temperature'', JNum 1),
         (''max_completion_tokens'', JNum 2048),
         (''response_format'', JObj [(''type'', JStr ''json_object'')])]\<rparr>"

text \<open>Upstream answers: a success, an HTML error page, two JSON errors, and bad bodies.\<close>

definition rt_ok :: runtime where
  "rt_ok = sample_runtime \<lparr>status = 200, statusText = ''OK'', responseText = Inr ''{ }''\<rparr>"

definition rt_truncated :: runtime where
  \<open>rt_truncated =
     sample_runtime
       \<lparr>status = 200, statusText = ''OK'', responseText = Inr ''{"choices":[{"message":''\<rparr>\<close>

definition rt_html :: runtime where
  "rt_html =
     sample_runtime
       \<lparr>status = 502, statusText = ''Bad Gateway'',
        responseText = Inr ''<!DOCTYPE html><html><body>Bad Gateway</body></html>''\<rparr>"

definition rt_plain :: runtime where
  "rt_plain =
     sample_runtime
       \<lparr>status = 503, statusText = ''Service Unavailable'',
        responseText = Inr ''upstream connect error''\<rparr>"

definition rt_unauthorized :: runtime where
  \<open>rt_unauthorized =
     sample_runtime
       \<lparr>status = 401, statusText = ''Unauthorized'',
        responseText = Inr ''{"error":{"message":"Incorrect API key provided"}}''\<rparr>\<close>

definition rt_not_found :: runtime where
  \<open>rt_not_found =
     sample_runtime
       \<lparr>status = 404, statusText = ''Not Found'',
        responseText = Inr ''{"message":"Not Found"}''\<rparr>\<close>

definition rt_unreadable :: runtime where
  "rt_unreadable =
     sample_runtime
       \<lparr>status = 500, statusText = ''Internal Server Error'', responseText = Inl TypeError\<rparr>"

definition rt_null :: runtime where
  "rt_null =
     sample_runtime
       \<lparr>status = 503, statusText = ''Service Unavailable'', responseText = Inr ''null''\<rparr>"

text \<open>A provider registered at run time, to exercise \<open>registerProvider\<close>.\<close>

definition GeminiProvider :: "runtime \<Rightarrow> LLMProvider" where
  "GeminiProvider rt =
     \<lparr>canHandle = (\<lambda>model. js_startsWith model ''gemini-''),
      makeRequest = OpenAIProvider_makeRequest rt\<rparr>"

section \<open>Auxiliary facts\<close>

lemma bindE_Inr [simp]: "bindE (Inr v) f = f v"
  by (simp add: bindE_def)

lemma bindE_Inl [simp]: "bindE (Inl e) f = Inl e"
  by (simp add: bindE_def)

lemmas provider_defs =
  ClaudeProvider_def DeepseekProvider_def OpenAIProvider_def
  ClaudeProvider_canHandle_def DeepseekProvider_canHandle_def OpenAIProvider_canHandle_def

lemma canHandle_string:
  "canHandle (ClaudeProvider rt) (JStr m) = Inr (startsWith m ''claude-'')"
  "canHandle (DeepseekProvider rt) (JStr m) = Inr (startsWith m ''deepseek-'')"
  "canHandle (OpenAIProvider rt) v = Inr True"
  by (simp_all add: provider_defs js_startsWith_def)

lemma providers_distinct:
  "ClaudeProvider rt \<noteq> DeepseekProvider rt"
  "ClaudeProvider rt \<noteq> OpenAIProvider rt"
  "DeepseekProvider rt \<noteq> OpenAIProvider rt"
proof -
  have c: "canHandle (ClaudeProvider rt) (JStr ''claude-'') = Inr True"
    and d: "canHandle (DeepseekProvider rt) (JStr ''claude-'') = Inr False"
    and e: "canHandle (DeepseekProvider rt) (JStr []) = Inr False"
    and f: "canHandle (ClaudeProvider rt) (JStr []) = Inr False"
    by (simp_all add: canHandle_string startsWith_def)
  show "ClaudeProvider rt \<noteq> DeepseekProvider rt"
    using c d by auto
  show "ClaudeProvider rt \<noteq> OpenAIProvider rt"
    using f canHandle_string(3) [of rt "JStr []"] by auto
  show "DeepseekProvider rt \<noteq> OpenAIProvider rt"
    using e canHandle_string(3) [of rt "JStr []"] by auto
qed

section \<open>Provider selection\<close>

text \<open>
  C1. For every model string the dispatcher selects one adapter, by first match on the
  fixed ordered list: the Anthropic adapter when the model starts with \<open>claude-\<close>,
  otherwise the Deepseek adapter when it starts with \<open>deepseek-\<close>, otherwise (any other
  string, the empty one included) the OpenAI adapter. The three adapters are pairwise
  different, so the selection names exactly one of them.
\<close>

theorem getProvider_first_match:
  "getProvider rt (LLMProviderFactory_providers rt) (JStr m) =
     Inr (if startsWith m ''claude-'' then ClaudeProvider rt
          else if startsWith m ''deepseek-'' then DeepseekProvider rt
          else OpenAIProvider rt)
   \<and> ClaudeProvider rt \<noteq> DeepseekProvider rt
   \<and> ClaudeProvider rt \<noteq> OpenAIProvider rt
   \<and> DeepseekProvider rt \<noteq> OpenAIProvider rt"
  by (simp add: getProvider_def LLMProviderFactory_providers_def canHandle_string
      providers_distinct)

theorem getProvider_first_match_witness:
  "getProvider rt_ok (LLMProviderFactory_providers rt_ok) (JStr ''claude-sonnet-4-20250514'')
     = Inr (ClaudeProvider rt_ok)
   \<and> getProvider rt_ok (LLMProviderFactory_providers rt_ok) (JStr ''deepseek-chat'')
     = Inr (DeepseekProvider rt_ok)
   \<and> getProvider rt_ok (LLMProviderFactory_providers rt_ok) (JStr ''gpt-4.1'')
     = Inr (OpenAIProvider rt_ok)
   \<and> getProvider rt_ok (LLMProviderFactory_providers rt_ok) (JStr [])
     = Inr (OpenAIProvider rt_ok)"
  using getProvider_first_match [of rt_ok "''claude-sonnet-4-20250514''"]
    getProvider_first_match [of rt_ok "''deepseek-chat''"]
    getProvider_first_match [of rt_ok "''gpt-4.1''"]
    getProvider_first_match [of rt_ok "[]"]
  by (simp add: startsWith_def)

lemma registerProvider_last:
  "ps \<noteq> [] \<Longrightarrow> registerProvider p ps \<noteq> [] \<and> last (registerProvider p ps) = last ps"
proof -
  assume ne: "ps \<noteq> []"
  then have "drop (length ps - 1) ps = [last ps]"
    by (induction ps rule: rev_induct) simp_all
  moreover have "nat (max (int (length ps) - 1) 0) = length ps - 1"
    by simp
  ultimately show ?thesis
    by (simp add: registerProvider_def Let_def)
qed

lemma fold_registerProvider_last:
  "ps \<noteq> [] \<Longrightarrow>
     fold registerProvider qs ps \<noteq> [] \<and> last (fold registerProvider qs ps) = last ps"
proof (induction qs arbitrary: ps)
  case Nil
  then show ?case by simp
next
  case (Cons q qs)
  from Cons.prems have "registerProvider q ps \<noteq> []" "last (registerProvider q ps) = last ps"
    using registerProvider_last by blast+
  with Cons.IH [of "registerProvider q ps"] show ?case by simp
qed

lemma js_find_last_true:
  "ps \<noteq> [] \<Longrightarrow> f (last ps) = Inr True \<Longrightarrow> js_find f ps \<noteq> Inr None"
proof (induction ps)
  case Nil
  then show ?case by simp
next
  case (Cons p ps)
  show ?case
  proof (cases "ps = []")
    case True
    with Cons.prems show ?thesis by simp
  next
    case False
    with Cons show ?thesis by (simp split: sum.split)
  qed
qed

text \<open>
  C9. For every model string \<open>getProvider\<close> returns an adapter. The branch that throws
  \<open>No provider found\<close> is taken when \<open>find\<close> comes back empty, and it never does: the
  OpenAI adapter accepts every value and is the last element of the list, initially
  and after any sequence \<open>qs\<close> of \<open>registerProvider\<close> calls, each of which inserts
  before the last element.
\<close>

theorem fallback_always_found:
  "(\<exists>p. getProvider rt (LLMProviderFactory_providers rt) (JStr m) = Inr p)
   \<and> canHandle (OpenAIProvider rt) v = Inr True
   \<and> last (LLMProviderFactory_providers rt) = OpenAIProvider rt
   \<and> last (fold registerProvider qs (LLMProviderFactory_providers rt)) = OpenAIProvider rt
   \<and> js_find (\<lambda>p. canHandle p v) (fold registerProvider qs (LLMProviderFactory_providers rt))
        \<noteq> Inr None"
proof -
  let ?ps = "LLMProviderFactory_providers rt"
  have ne: "?ps \<noteq> []" and l: "last ?ps = OpenAIProvider rt"
    by (simp_all add: LLMProviderFactory_providers_def)
  have f: "fold registerProvider qs ?ps \<noteq> []"
    and fl: "last (fold registerProvider qs ?ps) = OpenAIProvider rt"
    using fold_registerProvider_last [OF ne, of qs] l by simp_all
  have "js_find (\<lambda>p. canHandle p v) (fold registerProvider qs ?ps) \<noteq> Inr None"
    by (rule js_find_last_true [OF f]) (simp add: fl canHandle_string)
  moreover have "\<exists>p. getProvider rt ?ps (JStr m) = Inr p"
    by (simp add: getProvider_def LLMProviderFactory_providers_def canHandle_string)
  ultimately show ?thesis
    using l fl by (simp add: canHandle_string)
qed

theorem fallback_always_found_witness:
  "registerProvider (GeminiProvider rt_ok) (LLMProviderFactory_providers rt_ok) =
     [ClaudeProvider rt_ok, DeepseekProvider rt_ok, GeminiProvider rt_ok, OpenAIProvider rt_ok]
   \<and> last (fold registerProvider [GeminiProvider rt_ok] (LLMProviderFactory_providers rt_ok))
       = OpenAIProvider rt_ok
   \<and> js_find (\<lambda>p. canHandle p (JStr ''mistral-large''))
         (fold registerProvider [GeminiProvider rt_ok] (LLMProviderFactory_providers rt_ok))
       = Inr (Some (OpenAIProvider rt_ok))"
proof -
  have r: "registerProvider (GeminiProvider rt_ok) (LLMProviderFactory_providers rt_ok) =
     [ClaudeProvider rt_ok, DeepseekProvider rt_ok, GeminiProvider rt_ok, OpenAIProvider rt_ok]"
    by (simp add: registerProvider_def LLMProviderFactory_providers_def)
  have f: "js_find (\<lambda>p. canHandle p (JStr ''mistral-large''))
      [ClaudeProvider rt_ok, DeepseekProvider rt_ok, GeminiProvider rt_ok, OpenAIProvider rt_ok]
      = Inr (Some (OpenAIProvider rt_ok))"
    by (simp add: canHandle_string GeminiProvider_def js_startsWith_def startsWith_def)
  have l: "last (fold registerProvider [GeminiProvider rt_ok] (LLMProviderFactory_providers rt_ok))
      = OpenAIProvider rt_ok"
    using fallback_always_found [of rt_ok "[]" JNull "[GeminiProvider rt_ok]"]
    by (rule conjunct1 [OF conjunct2 [OF conjunct2 [OF conjunct2]]])
  have f': "js_find (\<lambda>p. canHandle p (JStr ''mistral-large''))
      (fold registerProvider [GeminiProvider rt_ok] (LLMProviderFactory_providers rt_ok))
      = Inr (Some (OpenAIProvider rt_ok))"
    using r f by simp
  show ?thesis
    by (intro conjI) (rule r, rule l, rule f')
qed

section \<open>Well-typed requests through the adapters\<close>

lemma get_prop_ChatRequest_js:
  "get_prop (ChatRequest_js r) ''apiKey'' = Inr (JStr (apiKey r))"
  "get_prop (ChatRequest_js r) ''model'' = Inr (JStr (model r))"
  "get_prop (ChatRequest_js r) ''messages'' = Inr (JArr (map message_js (messages r)))"
  "get_prop (ChatRequest_js r) ''temperature'' = Inr (JNum (temperature r))"
  "get_prop (ChatRequest_js r) ''max_completion_tokens'' = Inr (JNum (max_completion_tokens r))"
  "get_prop (ChatRequest_js r) ''response_format'' =
     Inr (case response_format r of None \<Rightarrow> JUndefined | Some t \<Rightarrow> response_format_js t)"
  by (simp_all add: ChatRequest_js_def split: option.split)

lemma is_role_message_js:
  "is_role ''user'' (message_js m) = Inr (role m = User)"
  "is_role ''system'' (message_js m) = Inr (role m = System)"
  by (cases "role m"; simp add: is_role_def message_js_def role_js_def)+

lemma js_filter_user:
  "js_filter (is_role ''user'') (map message_js ms) = Inr (map message_js (with_role User ms))"
  by (induction ms) (simp_all add: is_role_message_js with_role_def)

lemma js_find_system:
  "js_find (is_role ''system'') (map message_js ms) =
     Inr (map_option message_js (first_with_role System ms))"
  by (induction ms) (simp_all add: is_role_message_js first_with_role_def)

lemma missing_required_fields_ChatRequest:
  "missing_required_fields (ChatRequest_js r) = Inr (apiKey r = [] \<or> model r = [])"
  by (simp add: missing_required_fields_def get_prop_ChatRequest_js)

lemma ClaudeProvider_requestBody_ChatRequest:
  "ClaudeProvider_requestBody (ChatRequest_js r) =
     Inr (JObj
       [(''model'', JStr (model r)),
        (''max_tokens'', JNum (max_completion_tokens r)),
        (''temperature'', JNum (temperature r)),
        (''messages'', JArr (map message_js (with_role User (messages r)))),
        (''system'', JStr
           (case first_with_role System (messages r) of
              None \<Rightarrow> ''You are a helpful assistant.''
            | Some m \<Rightarrow>
                if content m = [] then ''You are a helpful assistant.'' else content m))])"
  by (simp add: ClaudeProvider_requestBody_def get_prop_ChatRequest_js messages_filter_def
      messages_find_def js_filter_user js_find_system optional_content_def message_js_def
      split: option.split)

lemma spread_response_format_ChatRequest:
  "spread_response_format (case response_format r of None \<Rightarrow> JUndefined | Some t \<Rightarrow> response_format_js t)
     = (case response_format r of None \<Rightarrow> [] | Some t \<Rightarrow> [(''response_format'', response_format_js t)])"
  by (simp add: spread_response_format_def response_format_js_def split: option.split)

lemma bearer_ChatRequest:
  "bearer rt (ChatRequest_js r) = Inr (JStr (''Bearer '' @ apiKey r))"
  by (simp add: bearer_def get_prop_ChatRequest_js)

lemma OpenAIProvider_requestBody_ChatRequest:
  "OpenAIProvider_requestBody (ChatRequest_js r) =
     Inr (JObj
       ([(''model'', JStr (model r)),
         (''messages'', JArr (map message_js (messages r))),
         (''temperature'', JNum (temperature r)),
         (''max_completion_tokens'', JNum (max_completion_tokens r))]
        @ (case response_format r of
             None \<Rightarrow> []
           | Some t \<Rightarrow> [(''response_format'', response_format_js t)])))"
  by (simp add: OpenAIProvider_requestBody_def get_prop_ChatRequest_js
      spread_response_format_ChatRequest)

lemma DeepseekProvider_requestBody_ChatRequest:
  "DeepseekProvider_requestBody (ChatRequest_js r) =
     Inr (JObj
       ([(''model'', JStr (model r)),
         (''messages'', JArr (map message_js (messages r))),
         (''temperature'', JNum (temperature r)),
         (''max_tokens'', JNum (max_completion_tokens r))]
        @ (case response_format r of
             None \<Rightarrow> []
           | Some t \<Rightarrow> [(''response_format'', response_format_js t)])))"
  by (simp add: DeepseekProvider_requestBody_def get_prop_ChatRequest_js
      spread_response_format_ChatRequest)

section \<open>Request shaping\<close>

text \<open>
  C2 (amended). For every well-typed request whose model starts with \<open>claude-\<close>, the
  dispatcher selects the Anthropic adapter and the adapter issues one call whose body
  has \<open>model\<close>, \<open>max_tokens\<close> and \<open>temperature\<close> equal to the request's model,
  \<open>max_completion_tokens\<close> and temperature, \<open>messages\<close> equal to the request's messages
  of role \<open>user\<close> in their order, and \<open>system\<close> equal to the content of the first
  message of role \<open>system\<close> when there is one and its content is not empty, and to
  \<open>You are a helpful assistant.\<close> otherwise (the source falls back with \<open>||\<close>, which
  also replaces an empty content).
\<close>

theorem anthropic_payload:
  assumes "startsWith (model r) ''claude-''"
  shows "getProvider rt (LLMProviderFactory_providers rt) (JStr (model r)) = Inr (ClaudeProvider rt)
    \<and> makeRequest (ClaudeProvider rt) (ChatRequest_js r) =
        fetch rt
          \<lparr>url = ''https://api.anthropic.com/v1/messages'',
           http_method = ''POST'',
           headers =
             [(''Content-Type'', JStr ''application/json''),
              (''x-api-key'', JStr (apiKey r)),
              (''anthropic-version'', JStr ''2023-06-01'')],
           payload = JObj
             [(''model'', JStr (model r)),
              (''max_tokens'', JNum (max_completion_tokens r)),
              (''temperature'', JNum (temperature r)),
              (''messages'', JArr (map message_js (with_role User (messages r)))),
              (''system'', JStr
                 (case first_with_role System (messages r) of
                    None \<Rightarrow> ''You are a helpful assistant.''
                  | Some m \<Rightarrow>
                      if content m = [] then ''You are a helpful assistant.''
                      else content m))]\<rparr>"
proof -
  have "getProvider rt (LLMProviderFactory_providers rt) (JStr (model r)) = Inr (ClaudeProvider rt)"
    using assms
    by (simp add: getProvider_def LLMProviderFactory_providers_def canHandle_string)
  moreover have "makeRequest (ClaudeProvider rt) (ChatRequest_js r) =
      ClaudeProvider_makeRequest rt (ChatRequest_js r)"
    by (simp add: ClaudeProvider_def)
  ultimately show ?thesis
    by (simp add: ClaudeProvider_makeRequest_def ClaudeProvider_requestBody_ChatRequest
        get_prop_ChatRequest_js)
qed

theorem anthropic_payload_witness:
  "startsWith (model claude_request) ''claude-''
   \<and> makeRequest (ClaudeProvider rt_ok) (ChatRequest_js claude_request) =
       fetch rt_ok
         \<lparr>url = ''https://api.anthropic.com/v1/messages'',
          http_method = ''POST'',
          headers =
            [(''Content-Type'', JStr ''application/json''),
             (''x-api-key'', JStr ''k''),
             (''anthropic-version'', JStr ''2023-06-01'')],
          payload = JObj
            [(''model'', JStr ''claude-sonnet-4-20250514''),
             (''max_tokens'', JNum 100),
             (''temperature'', JNum (1 / 2)),
             (''messages'', JArr [JObj [(''role'', JStr ''user''), (''content'', JStr ''Hi'')]]),
             (''system'', JStr ''Be terse.'')]\<rparr>"
proof -
  have h: "startsWith (model claude_request) ''claude-''"
    by (simp add: claude_request_def startsWith_def)
  show ?thesis
    using h anthropic_payload [OF h, of rt_ok]
    by (simp add: claude_request_def with_role_def first_with_role_def message_js_def
        role_js_def)
qed

text \<open>
  The claim as first stated gives the content of the first \<open>system\<close> message whenever
  one exists. With an empty content the body carries the default instead.
\<close>

theorem anthropic_empty_system_counterexample:
  "first_with_role System
       [\<lparr>role = System, content = []\<rparr>, \<lparr>role = User, content = ''Hi''\<rparr>]
     = Some \<lparr>role = System, content = []\<rparr>
   \<and> ClaudeProvider_requestBody
       (ChatRequest_js
         \<lparr>apiKey = ''k'',
          model = ''claude-sonnet-4-20250514'',
          messages = [\<lparr>role = System, content = []\<rparr>, \<lparr>role = User, content = ''Hi''\<rparr>],
          response_format = None,
          temperature = 1 / 2,
          max_completion_tokens = 100\<rparr>)
     = Inr (JObj
         [(''model'', JStr ''claude-sonnet-4-20250514''),
          (''max_tokens'', JNum 100),
          (''temperature'', JNum (1 / 2)),
          (''messages'', JArr [JObj [(''role'', JStr ''user''), (''content'', JStr ''Hi'')]]),
          (''system'', JStr ''You are a helpful assistant.'')])"
  by (simp add: first_with_role_def ClaudeProvider_requestBody_def ChatRequest_js_def
      message_js_def role_js_def messages_filter_def messages_find_def is_role_def
      optional_content_def)

text \<open>
  C5. For every well-typed request whose model does not start with \<open>claude-\<close>, the
  dispatcher selects the Deepseek adapter (prefix \<open>deepseek-\<close>) or the OpenAI adapter,
  and the adapter issues one call whose body has the model, all the messages as they
  are and in order, the temperature, the token bound (named \<open>max_tokens\<close> for Deepseek
  and \<open>max_completion_tokens\<close> for OpenAI), and a \<open>response_format\<close> property if and
  only if the request has one.
\<close>

theorem openai_deepseek_payload:
  assumes "\<not> startsWith (model r) ''claude-''"
  shows "\<exists>p call.
      getProvider rt (LLMProviderFactory_providers rt) (JStr (model r)) = Inr p
    \<and> p = (if startsWith (model r) ''deepseek-'' then DeepseekProvider rt else OpenAIProvider rt)
    \<and> makeRequest p (ChatRequest_js r) = fetch rt call
    \<and> payload call = JObj
        ([(''model'', JStr (model r)),
          (''messages'', JArr (map message_js (messages r))),
          (''temperature'', JNum (temperature r)),
          (if startsWith (model r) ''deepseek-'' then ''max_tokens''
           else ''max_completion_tokens'',
           JNum (max_completion_tokens r))]
         @ (case response_format r of
              None \<Rightarrow> []
            | Some t \<Rightarrow> [(''response_format'', response_format_js t)]))
    \<and> has_property (payload call) ''response_format'' = (response_format r \<noteq> None)"
proof (cases "startsWith (model r) ''deepseek-''")
  case True
  let ?call =
    "\<lparr>url = ''https://api.deepseek.com/chat/completions'',
      http_method = ''POST'',
      headers =
        [(''Content-Type'', JStr ''application/json''),
         (''Accept'', JStr ''application/json''),
         (''Authorization'', JStr (''Bearer '' @ apiKey r))],
      payload = JObj
        ([(''model'', JStr (model r)),
          (''messages'', JArr (map message_js (messages r))),
          (''temperature'', JNum (temperature r)),
          (''max_tokens'', JNum (max_completion_tokens r))]
         @ (case response_format r of
              None \<Rightarrow> []
            | Some t \<Rightarrow> [(''response_format'', response_format_js t)]))\<rparr>"
  have sel: "getProvider rt (LLMProviderFactory_providers rt) (JStr (model r))
      = Inr (DeepseekProvider rt)"
    using assms True
    by (simp add: getProvider_def LLMProviderFactory_providers_def canHandle_string)
  have mk: "makeRequest (DeepseekProvider rt) (ChatRequest_js r) = fetch rt ?call"
    by (simp add: DeepseekProvider_def DeepseekProvider_makeRequest_def
        DeepseekProvider_requestBody_ChatRequest bearer_ChatRequest)
  have hp: "has_property (payload ?call) ''response_format'' = (response_format r \<noteq> None)"
    by (cases "response_format r") (simp_all add: has_property_def)
  show ?thesis
    using True sel mk hp by (intro exI [of _ "DeepseekProvider rt"] exI [of _ ?call]) simp
next
  case False
  let ?call =
    "\<lparr>url = ''https://api.openai.com/v1/chat/completions'',
      http_method = ''POST'',
      headers =
        [(''Content-Type'', JStr ''application/json''),
         (''Authorization'', JStr (''Bearer '' @ apiKey r))],
      payload = JObj
        ([(''model'', JStr (model r)),
          (''messages'', JArr (map message_js (messages r))),
          (''temperature'', JNum (temperature r)),
          (''max_completion_tokens'', JNum (max_completion_tokens r))]
         @ (case response_format r of
              None \<Rightarrow> []
            | Some t \<Rightarrow> [(''response_format'', response_format_js t)]))\<rparr>"
  have sel: "getProvider rt (LLMProviderFactory_providers rt) (JStr (model r))
      = Inr (OpenAIProvider rt)"
    using assms False
    by (simp add: getProvider_def LLMProviderFactory_providers_def canHandle_string)
  have mk: "makeRequest (OpenAIProvider rt) (ChatRequest_js r) = fetch rt ?call"
    by (simp add: OpenAIProvider_def OpenAIProvider_makeRequest_def
        OpenAIProvider_requestBody_ChatRequest bearer_ChatRequest)
  have hp: "has_property (payload ?call) ''response_format'' = (response_format r \<noteq> None)"
    by (cases "response_format r") (simp_all add: has_property_def)
  show ?thesis
    using False sel mk hp by (intro exI [of _ "OpenAIProvider rt"] exI [of _ ?call]) simp
qed

theorem openai_deepseek_payload_witness:
  "\<not> startsWith (model gpt_request) ''claude-''
   \<and> (\<exists>call. makeRequest (OpenAIProvider rt_ok) (ChatRequest_js gpt_request) = fetch rt_ok call
        \<and> payload call = JObj
            [(''model'', JStr ''gpt-4.1''),
             (''messages'', JArr
                [JObj [(''role'', JStr ''system''), (''content'', JStr ''Be terse.'')],
                 JObj [(''role'', JStr ''user''), (''content'', JStr ''Hi'')]]),
             (''temperature'', JNum 1),
             (''max_completion_tokens'', JNum 2048),
             (''response_format'', JObj [(''type'', JStr ''json_object'')])])"
proof -
  have h: "\<not> startsWith (model gpt_request) ''claude-''"
    by (simp add: gpt_request_def startsWith_def)
  have d: "\<not> startsWith (model gpt_request) ''deepseek-''"
    by (simp add: gpt_request_def startsWith_def)
  from openai_deepseek_payload [OF h, of rt_ok] d
  obtain call where
    "makeRequest (OpenAIProvider rt_ok) (ChatRequest_js gpt_request) = fetch rt_ok call"
    "payload call = JObj
        ([(''model'', JStr (model gpt_request)),
          (''messages'', JArr (map message_js (messages gpt_request))),
          (''temperature'', JNum (temperature gpt_request)),
          (''max_completion_tokens'', JNum (max_completion_tokens gpt_request))]
         @ (case response_format gpt_request of
              None \<Rightarrow> []
            | Some t \<Rightarrow> [(''response_format'', response_format_js t)]))"
    by auto
  then show ?thesis
    using h
    by (intro conjI exI [of _ call])
      (simp_all add: gpt_request_def message_js_def role_js_def response_format_js_def)
qed

lemma ClaudeProvider_requestBody_shape:
  assumes "ClaudeProvider_requestBody request = Inr b"
  shows "\<exists>a1 a2 a3 a4 a5.
    b = JObj [(''model'', a1), (''max_tokens'', a2), (''temperature'', a3),
              (''messages'', a4), (''system'', a5)]"
  using assms
  unfolding ClaudeProvider_requestBody_def bindE_def
  by (auto split: sum.splits)

lemma ClaudeProvider_calls:
  assumes "call \<in> set (fst (ClaudeProvider_makeRequest rt request))"
  shows "ClaudeProvider_requestBody request = Inr (payload call)"
  using assms
  by (auto simp: ClaudeProvider_makeRequest_def fetch_def split: sum.splits)

text \<open>
  C6. Whatever the request (any value, well-typed or not), no call the Anthropic adapter
  issues has a \<open>response_format\<close> property in its body. For a well-typed request the
  adapter issues one call, and it is the same call whatever the request's
  \<open>response_format\<close> is set to.
\<close>

theorem anthropic_drops_response_format:
  "(\<forall>call \<in> set (fst (makeRequest (ClaudeProvider rt) request)).
      \<not> has_property (payload call) ''response_format'')
   \<and> (\<exists>call. makeRequest (ClaudeProvider rt) (ChatRequest_js r) = fetch rt call
        \<and> \<not> has_property (payload call) ''response_format''
        \<and> makeRequest (ClaudeProvider rt) (ChatRequest_js (r\<lparr>response_format := f\<rparr>))
            = fetch rt call)"
proof -
  have mk: "makeRequest (ClaudeProvider rt) = ClaudeProvider_makeRequest rt"
    by (simp add: ClaudeProvider_def)
  have any: "\<not> has_property (payload call) ''response_format''"
    if "call \<in> set (fst (ClaudeProvider_makeRequest rt request))" for call
  proof -
    from that have "ClaudeProvider_requestBody request = Inr (payload call)"
      by (rule ClaudeProvider_calls)
    then obtain a1 a2 a3 a4 a5 where
      "payload call = JObj [(''model'', a1), (''max_tokens'', a2), (''temperature'', a3),
              (''messages'', a4), (''system'', a5)]"
      using ClaudeProvider_requestBody_shape by blast
    then show ?thesis
      by (simp add: has_property_def)
  qed
  have typed: "ClaudeProvider_makeRequest rt (ChatRequest_js q) =
      fetch rt
        \<lparr>url = ''https://api.anthropic.com/v1/messages'',
         http_method = ''POST'',
         headers =
           [(''Content-Type'', JStr ''application/json''),
            (''x-api-key'', JStr (apiKey q)),
            (''anthropic-version'', JStr ''2023-06-01'')],
         payload = JObj
           [(''model'', JStr (model q)),
            (''max_tokens'', JNum (max_completion_tokens q)),
            (''temperature'', JNum (temperature q)),
            (''messages'', JArr (map message_js (with_role User (messages q)))),
            (''system'', JStr
               (case first_with_role System (messages q) of
                  None \<Rightarrow> ''You are a helpful assistant.''
                | Some m \<Rightarrow>
                    if content m = [] then ''You are a helpful assistant.''
                    else content m))]\<rparr>" for q
    by (simp add: ClaudeProvider_makeRequest_def ClaudeProvider_requestBody_ChatRequest
        get_prop_ChatRequest_js)
  have "\<exists>call. ClaudeProvider_makeRequest rt (ChatRequest_js r) = fetch rt call
        \<and> \<not> has_property (payload call) ''response_format''
        \<and> ClaudeProvider_makeRequest rt (ChatRequest_js (r\<lparr>response_format := f\<rparr>))
            = fetch rt call"
    by (simp add: typed has_property_def fetch_def)
  with any show ?thesis
    by (simp add: mk)
qed

theorem anthropic_drops_response_format_witness:
  "\<not> has_property
      (JObj
        [(''model'', JStr ''claude-sonnet-4-20250514''),
         (''max_tokens'', JNum 100),
         (''temperature'', JNum (1 / 2)),
         (''messages'', JArr [JObj [(''role'', JStr ''user''), (''content'', JStr ''Hi'')]]),
         (''system'', JStr ''Be terse.'')])
      ''response_format''
   \<and> fst (makeRequest (ClaudeProvider rt_ok)
        (ChatRequest_js (claude_request\<lparr>response_format := Some Json_object\<rparr>))) =
      [\<lparr>url = ''https://api.anthropic.com/v1/messages'',
        http_method = ''POST'',
        headers =
          [(''Content-Type'', JStr ''application/json''),
           (''x-api-key'', JStr ''k''),
           (''anthropic-version'', JStr ''2023-06-01'')],
        payload = JObj
          [(''model'', JStr ''claude-sonnet-4-20250514''),
           (''max_tokens'', JNum 100),
           (''temperature'', JNum (1 / 2)),
           (''messages'', JArr [JObj [(''role'', JStr ''user''), (''content'', JStr ''Hi'')]]),
           (''system'', JStr ''Be terse.'')]\<rparr>]"
proof -
  let ?request = "ChatRequest_js (claude_request\<lparr>response_format := Some Json_object\<rparr>)"
  let ?call =
    "\<lparr>url = ''https://api.anthropic.com/v1/messages'',
      http_method = ''POST'',
      headers =
        [(''Content-Type'', JStr ''application/json''),
         (''x-api-key'', JStr ''k''),
         (''anthropic-version'', JStr ''2023-06-01'')],
      payload = JObj
        [(''model'', JStr ''claude-sonnet-4-20250514''),
         (''max_tokens'', JNum 100),
         (''temperature'', JNum (1 / 2)),
         (''messages'', JArr [JObj [(''role'', JStr ''user''), (''content'', JStr ''Hi'')]]),
         (''system'', JStr ''Be terse.'')]\<rparr>"
  have calls: "fst (makeRequest (ClaudeProvider rt_ok) ?request) = [?call]"
    by (simp add: ClaudeProvider_def ClaudeProvider_makeRequest_def
        ClaudeProvider_requestBody_ChatRequest get_prop_ChatRequest_js fetch_def
        claude_request_def with_role_def first_with_role_def message_js_def role_js_def)
  then have "?call \<in> set (fst (makeRequest (ClaudeProvider rt_ok) ?request))"
    by simp
  with anthropic_drops_response_format [of rt_ok ?request]
  have "\<not> has_property (payload ?call) ''response_format''"
    by blast
  with calls show ?thesis
    by simp
qed

section \<open>The two revisions\<close>

lemma inline_claude_eq: "inline_claude rt body = ClaudeProvider_makeRequest rt body"
  unfolding inline_claude_def ClaudeProvider_makeRequest_def ClaudeProvider_requestBody_def
    bindE_def
  by (simp split: sum.splits)

lemma inline_deepseek_eq: "inline_deepseek rt body = DeepseekProvider_makeRequest rt body"
  unfolding inline_deepseek_def DeepseekProvider_makeRequest_def
    DeepseekProvider_requestBody_def bindE_def
  by (simp split: sum.splits)

lemma inline_openai_eq: "inline_openai rt body = OpenAIProvider_makeRequest rt body"
  unfolding inline_openai_def OpenAIProvider_makeRequest_def OpenAIProvider_requestBody_def
    bindE_def
  by (simp split: sum.splits)

lemma getProvider_cases:
  "getProvider rt (LLMProviderFactory_providers rt) m =
     (case js_startsWith m ''claude-'' of
        Inl e \<Rightarrow> Inl e
      | Inr c \<Rightarrow>
          if c then Inr (ClaudeProvider rt)
          else (case js_startsWith m ''deepseek-'' of
                  Inl e \<Rightarrow> Inl e
                | Inr d \<Rightarrow> if d then Inr (DeepseekProvider rt) else Inr (OpenAIProvider rt)))"
  by (simp add: getProvider_def LLMProviderFactory_providers_def provider_defs
      split: sum.splits)

lemma dispatch_revisions:
  "inline_dispatch rt request = dispatch rt (LLMProviderFactory_providers rt) request"
proof (cases "json request")
  case (Inl e)
  then show ?thesis by (simp add: inline_dispatch_def dispatch_def)
next
  case (Inr body)
  show ?thesis
  proof (cases "missing_required_fields body")
    case (Inl e)
    with Inr show ?thesis by (simp add: inline_dispatch_def dispatch_def)
  next
    case mr: (Inr b)
    show ?thesis
    proof (cases b)
      case True
      with Inr mr show ?thesis by (simp add: inline_dispatch_def dispatch_def)
    next
      case False
      show ?thesis
      proof (cases "get_prop body ''model''")
        case (Inl e)
        with Inr mr False show ?thesis by (simp add: inline_dispatch_def dispatch_def)
      next
        case m: (Inr m)
        show ?thesis
        proof (cases "js_startsWith m ''claude-''")
          case (Inl e)
          with Inr mr False m show ?thesis
            by (simp add: inline_dispatch_def dispatch_def getProvider_cases isClaudeModel_def)
        next
          case c: (Inr c)
          show ?thesis
          proof (cases c)
            case True
            with Inr mr False m c show ?thesis
              by (simp add: inline_dispatch_def dispatch_def getProvider_cases isClaudeModel_def
                  inline_claude_eq ClaudeProvider_def)
          next
            case nc: False
            show ?thesis
            proof (cases "js_startsWith m ''deepseek-''")
              case (Inl e)
              with Inr mr False m c nc show ?thesis
                by (simp add: inline_dispatch_def dispatch_def getProvider_cases
                    isClaudeModel_def isDeepseekModel_def)
            next
              case d: (Inr d)
              with Inr mr False m c nc show ?thesis
                by (cases d)
                  (simp_all add: inline_dispatch_def dispatch_def getProvider_cases
                    isClaudeModel_def isDeepseekModel_def inline_deepseek_eq inline_openai_eq
                    DeepseekProvider_def OpenAIProvider_def)
            qed
          qed
        qed
      qed
    qed
  qed
qed

lemma fst_POST: "fst (POST rt ps request) = fst (dispatch rt ps request)"
  by (simp add: POST_def split: prod.splits sum.splits)

lemma fst_POST_inline: "fst (POST_inline rt request) = fst (inline_dispatch rt request)"
  by (simp add: POST_inline_def split: prod.splits sum.splits)


lemma makeRequest_ChatRequest_calls:
  "\<exists>call. fst (ClaudeProvider_makeRequest rt (ChatRequest_js r)) = [call]"
  "\<exists>call. fst (DeepseekProvider_makeRequest rt (ChatRequest_js r)) = [call]"
  "\<exists>call. fst (OpenAIProvider_makeRequest rt (ChatRequest_js r)) = [call]"
  by (simp_all add: ClaudeProvider_makeRequest_def DeepseekProvider_makeRequest_def
      OpenAIProvider_makeRequest_def ClaudeProvider_requestBody_ChatRequest
      DeepseekProvider_requestBody_ChatRequest OpenAIProvider_requestBody_ChatRequest
      bearer_ChatRequest get_prop_ChatRequest_js fetch_def)

lemma dispatch_after_validation:
  assumes "json request = Inr body" and "missing_required_fields body = Inr False"
    and "get_prop body ''model'' = Inr m" and "getProvider rt ps m = Inr p"
  shows "dispatch rt ps request =
     (fst (makeRequest p body), map_sum id Inr (snd (makeRequest p body)))"
  using assms
  by (cases "makeRequest p body") (simp add: dispatch_def split: sum.splits)

lemma dispatch_ChatRequest_calls:
  assumes "apiKey r \<noteq> []" and "model r \<noteq> []"
  shows "\<exists>call. fst (dispatch rt (LLMProviderFactory_providers rt) (chat_request r)) = [call]"
proof -
  let ?ps = "LLMProviderFactory_providers rt"
  have j: "json (chat_request r) = Inr (ChatRequest_js r)"
    by (simp add: chat_request_def)
  have v: "missing_required_fields (ChatRequest_js r) = Inr False"
    using assms by (simp add: missing_required_fields_ChatRequest)
  have m: "get_prop (ChatRequest_js r) ''model'' = Inr (JStr (model r))"
    by (simp add: get_prop_ChatRequest_js)
  have "getProvider rt ?ps (JStr (model r)) = Inr (ClaudeProvider rt)
      \<or> getProvider rt ?ps (JStr (model r)) = Inr (DeepseekProvider rt)
      \<or> getProvider rt ?ps (JStr (model r)) = Inr (OpenAIProvider rt)"
    by (simp add: getProvider_cases js_startsWith_def)
  then show ?thesis
  proof (elim disjE)
    assume g: "getProvider rt ?ps (JStr (model r)) = Inr (ClaudeProvider rt)"
    show ?thesis
      using makeRequest_ChatRequest_calls(1) [of rt r]
      by (simp add: dispatch_after_validation [OF j v m g] ClaudeProvider_def)
  next
    assume g: "getProvider rt ?ps (JStr (model r)) = Inr (DeepseekProvider rt)"
    show ?thesis
      using makeRequest_ChatRequest_calls(2) [of rt r]
      by (simp add: dispatch_after_validation [OF j v m g] DeepseekProvider_def)
  next
    assume g: "getProvider rt ?ps (JStr (model r)) = Inr (OpenAIProvider rt)"
    show ?thesis
      using makeRequest_ChatRequest_calls(3) [of rt r]
      by (simp add: dispatch_after_validation [OF j v m g] OpenAIProvider_def)
  qed
qed

text \<open>
  C10. The inline if/else revision and the Strategy-Pattern revision have the same
  outbound behaviour: for every inbound request the part of the handler up to the
  upstream response gives the same result in both (the same \<open>fetch\<close> calls, with the same
  URL, headers and body, and the same early reply, exception or upstream response), so
  both handlers make the same calls; and for a well-typed request that passes the
  validation (non-empty \<open>apiKey\<close> and \<open>model\<close>) both make exactly one call, the same.
\<close>

theorem revisions_same_outbound:
  "inline_dispatch rt request = dispatch rt (LLMProviderFactory_providers rt) request
   \<and> fst (POST_inline rt request) = fst (POST rt (LLMProviderFactory_providers rt) request)
   \<and> (apiKey r \<noteq> [] \<and> model r \<noteq> [] \<longrightarrow>
        (\<exists>call. fst (POST_inline rt (chat_request r)) = [call]
           \<and> fst (POST rt (LLMProviderFactory_providers rt) (chat_request r)) = [call]))"
  using dispatch_ChatRequest_calls [of r rt]
  by (simp add: fst_POST fst_POST_inline dispatch_revisions)

theorem revisions_same_outbound_witness:
  "apiKey claude_request \<noteq> [] \<and> model claude_request \<noteq> []
   \<and> fst (POST_inline rt_ok (chat_request claude_request)) =
       [\<lparr>url = ''https://api.anthropic.com/v1/messages'',
         http_method = ''POST'',
         headers =
           [(''Content-Type'', JStr ''application/json''),
            (''x-api-key'', JStr ''k''),
            (''anthropic-version'', JStr ''2023-06-01'')],
         payload = JObj
           [(''model'', JStr ''claude-sonnet-4-20250514''),
            (''max_tokens'', JNum 100),
            (''temperature'', JNum (1 / 2)),
            (''messages'', JArr [JObj [(''role'', JStr ''user''), (''content'', JStr ''Hi'')]]),
            (''system'', JStr ''Be terse.'')]\<rparr>]
   \<and> fst (POST rt_ok (LLMProviderFactory_providers rt_ok) (chat_request claude_request)) =
       fst (POST_inline rt_ok (chat_request claude_request))"
proof -
  have a: "apiKey claude_request \<noteq> [] \<and> model claude_request \<noteq> []"
    by (simp add: claude_request_def)
  have "fst (POST_inline rt_ok (chat_request claude_request)) =
       [\<lparr>url = ''https://api.anthropic.com/v1/messages'',
         http_method = ''POST'',
         headers =
           [(''Content-Type'', JStr ''application/json''),
            (''x-api-key'', JStr ''k''),
            (''anthropic-version'', JStr ''2023-06-01'')],
         payload = JObj
           [(''model'', JStr ''claude-sonnet-4-20250514''),
            (''max_tokens'', JNum 100),
            (''temperature'', JNum (1 / 2)),
            (''messages'', JArr [JObj [(''role'', JStr ''user''), (''content'', JStr ''Hi'')]]),
            (''system'', JStr ''Be terse.'')]\<rparr>]"
    by code_simp
  moreover have "fst (POST rt_ok (LLMProviderFactory_providers rt_ok) (chat_request claude_request))
      = fst (POST_inline rt_ok (chat_request claude_request))"
    using revisions_same_outbound [of rt_ok "chat_request claude_request" claude_request]
    by (intro sym [of "fst (POST_inline rt_ok (chat_request claude_request))"]) blast
  ultimately show ?thesis
    using a by blast
qed

section \<open>Validation\<close>

lemma get_prop_total:
  assumes "get_prop body k = Inr v"
  shows "\<exists>w. get_prop body k' = Inr w"
  using assms by (cases body) simp_all

lemma missing_required_fields_absent:
  assumes "get_prop body ''apiKey'' = Inr JUndefined
      \<or> get_prop body ''model'' = Inr JUndefined
      \<or> get_prop body ''messages'' = Inr JUndefined
      \<or> get_prop body ''temperature'' = Inr JUndefined
      \<or> get_prop body ''max_completion_tokens'' = Inr JUndefined"
  shows "missing_required_fields body = Inr True"
proof -
  from assms obtain k v where "get_prop body k = Inr v"
    by blast
  then have tot: "\<exists>w. get_prop body k' = Inr w" for k'
    by (rule get_prop_total)
  obtain a where a: "get_prop body ''apiKey'' = Inr a"
    using tot by blast
  obtain m where m: "get_prop body ''model'' = Inr m"
    using tot by blast
  obtain ms where ms: "get_prop body ''messages'' = Inr ms"
    using tot by blast
  obtain t where t: "get_prop body ''temperature'' = Inr t"
    using tot by blast
  obtain mx where mx: "get_prop body ''max_completion_tokens'' = Inr mx"
    using tot by blast
  from assms a m ms t mx
  have "a = JUndefined \<or> m = JUndefined \<or> ms = JUndefined \<or> t = JUndefined \<or> mx = JUndefined"
    by simp
  then show ?thesis
    by (auto simp: missing_required_fields_def a m ms t mx)
qed

text \<open>
  C3 (amended). When the inbound body is a JSON value from which any of \<open>apiKey\<close>,
  \<open>model\<close>, \<open>messages\<close>, \<open>temperature\<close>, \<open>max_completion_tokens\<close> is absent (reading it
  gives \<open>undefined\<close>, which it cannot for the body \<open>null\<close>, where the read throws), the
  handler replies with status 400 and \<open>{error: {message: "Missing required fields"}}\<close>
  and makes no outbound call.
\<close>

theorem missing_fields_rejected:
  assumes "json request = Inr body"
    and "get_prop body ''apiKey'' = Inr JUndefined
      \<or> get_prop body ''model'' = Inr JUndefined
      \<or> get_prop body ''messages'' = Inr JUndefined
      \<or> get_prop body ''temperature'' = Inr JUndefined
      \<or> get_prop body ''max_completion_tokens'' = Inr JUndefined"
  shows "POST rt providers request =
    ([],
     Inr \<lparr>reply_status = 400,
      reply_body = JObj [(''error'', JObj [(''message'', JStr ''Missing required fields'')])]\<rparr>)"
  using assms(1) missing_required_fields_absent [OF assms(2)]
  by (simp add: POST_def dispatch_def NextResponse_json_def null_body_status_def error_message_def)

theorem missing_fields_rejected_witness:
  "POST rt_ok (LLMProviderFactory_providers rt_ok)
     \<lparr>json = Inr (JObj
        [(''apiKey'', JStr ''k''),
         (''model'', JStr ''gpt-4.1''),
         (''messages'', JArr [JObj [(''role'', JStr ''user''), (''content'', JStr ''Hi'')]]),
         (''temperature'', JNum 1)])\<rparr> =
    ([],
     Inr \<lparr>reply_status = 400,
      reply_body = JObj [(''error'', JObj [(''message'', JStr ''Missing required fields'')])]\<rparr>)"
proof -
  let ?body = "JObj
        [(''apiKey'', JStr ''k''),
         (''model'', JStr ''gpt-4.1''),
         (''messages'', JArr [JObj [(''role'', JStr ''user''), (''content'', JStr ''Hi'')]]),
         (''temperature'', JNum 1)]"
  have j: "json \<lparr>json = Inr ?body\<rparr> = Inr ?body"
    by simp
  have a: "get_prop ?body ''apiKey'' = Inr JUndefined
      \<or> get_prop ?body ''model'' = Inr JUndefined
      \<or> get_prop ?body ''messages'' = Inr JUndefined
      \<or> get_prop ?body ''temperature'' = Inr JUndefined
      \<or> get_prop ?body ''max_completion_tokens'' = Inr JUndefined"
    by simp
  show ?thesis
    by (rule missing_fields_rejected [OF j a])
qed

text \<open>
  The claim as first stated also rejects every property of the wrong primitive type.
  The guard has no test of a type: a \<open>temperature\<close> that is a string passes it, the
  OpenAI adapter is called with it and the upstream's answer is relayed.
\<close>

theorem wrong_type_accepted_counterexample:
  "\<not> required_fields_typed
       (JObj
         [(''apiKey'', JStr ''k''),
          (''model'', JStr ''gpt-4.1''),
          (''messages'', JArr [JObj [(''role'', JStr ''user''), (''content'', JStr ''Hi'')]]),
          (''temperature'', JStr ''hot''),
          (''max_completion_tokens'', JNum 100)])
   \<and> POST rt_ok (LLMProviderFactory_providers rt_ok)
       \<lparr>json = Inr (JObj
         [(''apiKey'', JStr ''k''),
          (''model'', JStr ''gpt-4.1''),
          (''messages'', JArr [JObj [(''role'', JStr ''user''), (''content'', JStr ''Hi'')]]),
          (''temperature'', JStr ''hot''),
          (''max_completion_tokens'', JNum 100)])\<rparr> =
     ([\<lparr>url = ''https://api.openai.com/v1/chat/completions'',
        http_method = ''POST'',
        headers =
          [(''Content-Type'', JStr ''application/json''),
           (''Authorization'', JStr ''Bearer k'')],
        payload = JObj
          [(''model'', JStr ''gpt-4.1''),
           (''messages'', JArr [JObj [(''role'', JStr ''user''), (''content'', JStr ''Hi'')]]),
           (''temperature'', JStr ''hot''),
           (''max_completion_tokens'', JNum 100)]\<rparr>],
      Inr \<lparr>reply_status = 200, reply_body = JObj []\<rparr>)"
  by code_simp

text \<open>The body \<open>null\<close> is not rejected by the guard: reading its property throws.\<close>

lemma null_body:
  "POST rt_ok (LLMProviderFactory_providers rt_ok) \<lparr>json = Inr JNull\<rparr> =
     ([],
      Inr \<lparr>reply_status = 500,
       reply_body = JObj [(''error'', JObj [(''message'', JStr ''Internal server error'')])]\<rparr>)"
  by code_simp

section \<open>Replies\<close>

lemma POST_after_dispatch:
  assumes "dispatch rt providers request = (calls, Inr (Inr response))"
  shows "POST rt providers request =
    (calls, case relay_response rt response of Inl e \<Rightarrow> internal_server_error | Inr r \<Rightarrow> Inr r)"
  using assms by (simp add: POST_def split: sum.splits)

lemma internal_server_error_reply:
  "internal_server_error =
     Inr \<lparr>reply_status = 500,
          reply_body = JObj [(''error'', JObj [(''message'', JStr ''Internal server error'')])]\<rparr>"
  by (simp add: internal_server_error_def NextResponse_json_def null_body_status_def
      error_message_def)

text \<open>No exception leaves the handler: it always replies.\<close>

lemma POST_always_replies: "\<exists>r. snd (POST rt providers request) = Inr r"
  by (simp add: POST_def internal_server_error_reply split: prod.splits sum.splits)

text \<open>
  An upstream status that a reply cannot carry with a body (below 200, above 599, or
  304) makes \<open>NextResponse.json\<close> throw inside the outer \<open>try\<close>, and the reply is
  that of the \<open>catch\<close>.
\<close>

lemma upstream_status_refused:
  assumes "dispatch rt providers request = (calls, Inr (Inr response))"
    and "status response < 200 \<or> 599 < status response \<or> status response = 304"
  shows "POST rt providers request =
    (calls,
     Inr \<lparr>reply_status = 500,
          reply_body = JObj [(''error'', JObj [(''message'', JStr ''Internal server error'')])]\<rparr>)"
proof -
  have n: "\<not> ok response"
    using assms(2) by (auto simp: ok_def)
  have "NextResponse_json v (status response) = Inl RangeError
      \<or> NextResponse_json v (status response) = Inl TypeError" for v
    using assms(2) by (auto simp: NextResponse_json_def null_body_status_def)
  then have "\<exists>e. upstream_error_reply rt response = Inl e"
    by (cases "get_prop (errorData rt response) ''error''")
      (auto simp: upstream_error_reply_def)
  with n show ?thesis
    by (auto simp: POST_after_dispatch [OF assms(1)] relay_response_def
        internal_server_error_reply)
qed

text \<open>
  C8. When the upstream answers with a successful status and a body that is not JSON,
  the handler replies with status 502 and
  \<open>{error: {message: "Invalid JSON response from LLM provider"}}\<close>.
\<close>

theorem malformed_success_body:
  assumes "dispatch rt providers request = (calls, Inr (Inr response))"
    and "ok response"
    and "responseText response = Inr txt"
    and "JSON_parse rt txt = None"
  shows "POST rt providers request =
    (calls,
     Inr \<lparr>reply_status = 502,
      reply_body = JObj
        [(''error'', JObj [(''message'', JStr ''Invalid JSON response from LLM provider'')])]\<rparr>)"
  using assms(2-4)
  by (simp add: POST_after_dispatch [OF assms(1)] relay_response_def
      upstream_success_reply_def NextResponse_json_def null_body_status_def error_message_def)

theorem malformed_success_body_witness:
  \<open>POST rt_truncated (LLMProviderFactory_providers rt_truncated) (chat_request gpt_request) =
    ([gpt_call],
     Inr \<lparr>reply_status = 502,
      reply_body = JObj
        [(''error'', JObj [(''message'', JStr ''Invalid JSON response from LLM provider'')])]\<rparr>)\<close>
proof -
  let ?response =
    \<open>\<lparr>status = 200, statusText = ''OK'', responseText = Inr ''{"choices":[{"message":''\<rparr>\<close>
  have d: "dispatch rt_truncated (LLMProviderFactory_providers rt_truncated)
      (chat_request gpt_request) = ([gpt_call], Inr (Inr ?response))"
    by code_simp
  have o: "ok ?response"
    by (simp add: ok_def)
  have t: \<open>responseText ?response = Inr ''{"choices":[{"message":''\<close>
    by simp
  have p: \<open>JSON_parse rt_truncated ''{"choices":[{"message":'' = None\<close>
    by code_simp
  show ?thesis
    by (rule malformed_success_body [OF d o t p])
qed

text \<open>
  C7 (amended). When the upstream answers with a successful status and a body that is
  JSON, the handler replies with status 200 and the value that \<open>JSON.parse\<close> gave for
  that body, unchanged; the bytes it sends are \<open>JSON.stringify\<close> of that value, not
  the upstream's text.
\<close>

theorem success_body_relayed:
  assumes "dispatch rt providers request = (calls, Inr (Inr response))"
    and "ok response"
    and "responseText response = Inr txt"
    and "JSON_parse rt txt = Some data"
  shows "POST rt providers request = (calls, Inr \<lparr>reply_status = 200, reply_body = data\<rparr>)
    \<and> reply_text rt \<lparr>reply_status = 200, reply_body = data\<rparr> = JSON_stringify rt data"
  using assms(2-4)
  by (simp add: POST_after_dispatch [OF assms(1)] relay_response_def
      upstream_success_reply_def NextResponse_json_def null_body_status_def reply_text_def)

theorem success_body_relayed_witness:
  "POST rt_ok (LLMProviderFactory_providers rt_ok) (chat_request gpt_request) =
     ([gpt_call], Inr \<lparr>reply_status = 200, reply_body = JObj []\<rparr>)"
proof -
  let ?response = "\<lparr>status = 200, statusText = ''OK'', responseText = Inr ''{ }''\<rparr>"
  have d: "dispatch rt_ok (LLMProviderFactory_providers rt_ok) (chat_request gpt_request)
      = ([gpt_call], Inr (Inr ?response))"
    by code_simp
  have o: "ok ?response"
    by (simp add: ok_def)
  have t: "responseText ?response = Inr ''{ }''"
    by simp
  have p: "JSON_parse rt_ok ''{ }'' = Some (JObj [])"
    by code_simp
  from success_body_relayed [OF d o t p] show ?thesis
    by (rule conjunct1)
qed

text \<open>
  The claim as first stated has the body passed through byte for byte. The upstream
  text \<open>{ }\<close> is relayed as \<open>{}\<close>.
\<close>

theorem success_body_bytes_counterexample:
  "network rt_ok gpt_call = Inr \<lparr>status = 200, statusText = ''OK'', responseText = Inr ''{ }''\<rparr>
   \<and> POST rt_ok (LLMProviderFactory_providers rt_ok) (chat_request gpt_request) =
       ([gpt_call], Inr \<lparr>reply_status = 200, reply_body = JObj []\<rparr>)
   \<and> reply_text rt_ok \<lparr>reply_status = 200, reply_body = JObj []\<rparr> = ''{}''
   \<and> ''{}'' \<noteq> ''{ }''"
  by code_simp

text \<open>
  C4 (amended). When the upstream answers with a status that is not a success and
  that a reply can carry with a body (from 200 to 599 and not 304, so from 300 to 599
  except 304), the handler replies with the upstream's status and lets no exception
  through, in each of these cases. If the body is JSON and the parsed value has a property \<open>error\<close>
  that can be read, the reply is \<open>{error: e}\<close> with \<open>e\<close> that property when it is truthy,
  and \<open>{message: "HTTP <status>: <statusText>"}\<close> otherwise. If the body is not JSON, the
  reply is \<open>{error: {message: "HTTP <status>: <statusText>", details: d}}\<close>, where \<open>d\<close> is
  the fixed text \<open>Received HTML error page instead of JSON\<close> when the body contains
  \<open><!DOCTYPE\<close>, and the first 200 code units of the body otherwise. If the body cannot
  be read, the reply is \<open>{error: {message: "HTTP <status>: <statusText>"}}\<close>.
\<close>

theorem upstream_error_relayed:
  assumes "dispatch rt providers request = (calls, Inr (Inr response))"
    and "\<not> ok response"
    and "200 \<le> status response" and "status response \<le> 599" and "status response \<noteq> 304"
  shows
    "(\<forall>txt v err.
        responseText response = Inr txt \<and> JSON_parse rt txt = Some v
          \<and> get_prop v ''error'' = Inr err \<longrightarrow>
        POST rt providers request =
          (calls,
           Inr \<lparr>reply_status = status response,
            reply_body = JObj
              [(''error'',
                if truthy err then err
                else JObj [(''message'', JStr (status_line response))])]\<rparr>))
     \<and> (\<forall>txt.
        responseText response = Inr txt \<and> JSON_parse rt txt = None \<longrightarrow>
        POST rt providers request =
          (calls,
           Inr \<lparr>reply_status = status response,
            reply_body = JObj
              [(''error'', JObj
                 [(''message'', JStr (status_line response)),
                  (''details'',
                     JStr (if str_includes txt ''<!DOCTYPE''
                           then ''Received HTML error page instead of JSON''
                           else take 200 txt))])]\<rparr>))
     \<and> (\<forall>e.
        responseText response = Inl e \<longrightarrow>
        POST rt providers request =
          (calls,
           Inr \<lparr>reply_status = status response,
            reply_body = JObj
              [(''error'', JObj [(''message'', JStr (status_line response))])]\<rparr>))"
proof -
  have "NextResponse_json v (status response) =
      Inr \<lparr>reply_status = status response, reply_body = v\<rparr>" for v
    using assms(2-5) by (auto simp: NextResponse_json_def null_body_status_def ok_def)
  with assms(2) show ?thesis
    by (simp add: POST_after_dispatch [OF assms(1)] relay_response_def upstream_error_reply_def
        errorData_def substring0_def)
qed

theorem upstream_error_relayed_witness:
  "POST rt_unauthorized (LLMProviderFactory_providers rt_unauthorized) (chat_request gpt_request) =
     ([gpt_call],
      Inr \<lparr>reply_status = 401,
       reply_body = JObj
         [(''error'', JObj [(''message'', JStr ''Incorrect API key provided'')])]\<rparr>)
   \<and> POST rt_not_found (LLMProviderFactory_providers rt_not_found) (chat_request gpt_request) =
     ([gpt_call],
      Inr \<lparr>reply_status = 404,
       reply_body = JObj [(''error'', JObj [(''message'', JStr ''HTTP 404: Not Found'')])]\<rparr>)
   \<and> POST rt_plain (LLMProviderFactory_providers rt_plain) (chat_request gpt_request) =
     ([gpt_call],
      Inr \<lparr>reply_status = 503,
       reply_body = JObj
         [(''error'', JObj
            [(''message'', JStr ''HTTP 503: Service Unavailable''),
             (''details'', JStr ''upstream connect error'')])]\<rparr>)
   \<and> POST rt_unreadable (LLMProviderFactory_providers rt_unreadable) (chat_request gpt_request) =
     ([gpt_call],
      Inr \<lparr>reply_status = 500,
       reply_body = JObj
         [(''error'', JObj [(''message'', JStr ''HTTP 500: Internal Server Error'')])]\<rparr>)"
proof -
  let ?r1 =
    \<open>\<lparr>status = 401, statusText = ''Unauthorized'',
      responseText = Inr ''{"error":{"message":"Incorrect API key provided"}}''\<rparr>\<close>
  let ?v1 = "JObj [(''error'', JObj [(''message'', JStr ''Incorrect API key provided'')])]"
  have d1: "dispatch rt_unauthorized (LLMProviderFactory_providers rt_unauthorized)
      (chat_request gpt_request) = ([gpt_call], Inr (Inr ?r1))"
    by code_simp
  have o1: "\<not> ok ?r1"
    by (simp add: ok_def)
  have p1: \<open>JSON_parse rt_unauthorized ''{"error":{"message":"Incorrect API key provided"}}''
      = Some ?v1\<close>
    by code_simp
  have g1: "get_prop ?v1 ''error'' = Inr (JObj [(''message'', JStr ''Incorrect API key provided'')])"
    by simp
  have first: "POST rt_unauthorized (LLMProviderFactory_providers rt_unauthorized)
      (chat_request gpt_request) =
     ([gpt_call],
      Inr \<lparr>reply_status = 401,
       reply_body = JObj
         [(''error'', JObj [(''message'', JStr ''Incorrect API key provided'')])]\<rparr>)"
    using upstream_error_relayed [OF d1 o1] p1 g1 by simp
  let ?r2 =
    \<open>\<lparr>status = 404, statusText = ''Not Found'', responseText = Inr ''{"message":"Not Found"}''\<rparr>\<close>
  let ?v2 = "JObj [(''message'', JStr ''Not Found'')]"
  have d2: "dispatch rt_not_found (LLMProviderFactory_providers rt_not_found)
      (chat_request gpt_request) = ([gpt_call], Inr (Inr ?r2))"
    by code_simp
  have o2: "\<not> ok ?r2"
    by (simp add: ok_def)
  have p2: \<open>JSON_parse rt_not_found ''{"message":"Not Found"}'' = Some ?v2\<close>
    by code_simp
  have g2: "get_prop ?v2 ''error'' = Inr JUndefined"
    by simp
  have l2: "status_line ?r2 = ''HTTP 404: Not Found''"
    by code_simp
  have second: "POST rt_not_found (LLMProviderFactory_providers rt_not_found)
      (chat_request gpt_request) =
     ([gpt_call],
      Inr \<lparr>reply_status = 404,
       reply_body = JObj [(''error'', JObj [(''message'', JStr ''HTTP 404: Not Found'')])]\<rparr>)"
    using upstream_error_relayed [OF d2 o2] p2 g2 l2 by simp
  let ?r3 =
    "\<lparr>status = 503, statusText = ''Service Unavailable'',
      responseText = Inr ''upstream connect error''\<rparr>"
  have d3: "dispatch rt_plain (LLMProviderFactory_providers rt_plain)
      (chat_request gpt_request) = ([gpt_call], Inr (Inr ?r3))"
    by code_simp
  have o3: "\<not> ok ?r3"
    by (simp add: ok_def)
  have p3: "JSON_parse rt_plain ''upstream connect error'' = None"
    by code_simp
  have i3: "\<not> str_includes ''upstream connect error'' ''<!DOCTYPE''"
    by code_simp
  have l3: "status_line ?r3 = ''HTTP 503: Service Unavailable''"
    by code_simp
  have third: "POST rt_plain (LLMProviderFactory_providers rt_plain) (chat_request gpt_request) =
     ([gpt_call],
      Inr \<lparr>reply_status = 503,
       reply_body = JObj
         [(''error'', JObj
            [(''message'', JStr ''HTTP 503: Service Unavailable''),
             (''details'', JStr ''upstream connect error'')])]\<rparr>)"
    using upstream_error_relayed [OF d3 o3] p3 i3 l3 by simp
  let ?r4 =
    "\<lparr>status = 500, statusText = ''Internal Server Error'', responseText = Inl TypeError\<rparr>"
  have d4: "dispatch rt_unreadable (LLMProviderFactory_providers rt_unreadable)
      (chat_request gpt_request) = ([gpt_call], Inr (Inr ?r4))"
    by code_simp
  have o4: "\<not> ok ?r4"
    by (simp add: ok_def)
  have l4: "status_line ?r4 = ''HTTP 500: Internal Server Error''"
    by code_simp
  have fourth: "POST rt_unreadable (LLMProviderFactory_providers rt_unreadable)
      (chat_request gpt_request) =
     ([gpt_call],
      Inr \<lparr>reply_status = 500,
       reply_body = JObj
         [(''error'', JObj [(''message'', JStr ''HTTP 500: Internal Server Error'')])]\<rparr>)"
    using upstream_error_relayed [OF d4 o4] l4 by simp
  from first second third fourth show ?thesis
    by (intro conjI)
qed

text \<open>
  The claim as first stated gives a snippet of the body whenever the body is not JSON.
  For an HTML page the details are the fixed text, which is no part of the body.
\<close>

theorem upstream_html_error_counterexample:
  "network rt_html gpt_call =
     Inr \<lparr>status = 502, statusText = ''Bad Gateway'',
          responseText = Inr ''<!DOCTYPE html><html><body>Bad Gateway</body></html>''\<rparr>
   \<and> POST rt_html (LLMProviderFactory_providers rt_html) (chat_request gpt_request) =
     ([gpt_call],
      Inr \<lparr>reply_status = 502,
       reply_body = JObj
         [(''error'', JObj
            [(''message'', JStr ''HTTP 502: Bad Gateway''),
             (''details'', JStr ''Received HTML error page instead of JSON'')])]\<rparr>)
   \<and> \<not> str_includes ''<!DOCTYPE html><html><body>Bad Gateway</body></html>''
         ''Received HTML error page instead of JSON''"
  by code_simp

text \<open>
  A body that parses to \<open>null\<close> is outside the cases above: reading \<open>errorData.error\<close>
  throws outside the inner \<open>try\<close> blocks, and the outer \<open>catch\<close> replies with status 500.
\<close>

lemma upstream_null_body:
  "network rt_null gpt_call =
     Inr \<lparr>status = 503, statusText = ''Service Unavailable'', responseText = Inr ''null''\<rparr>
   \<and> POST rt_null (LLMProviderFactory_providers rt_null) (chat_request gpt_request) =
     ([gpt_call],
      Inr \<lparr>reply_status = 500,
       reply_body = JObj [(''error'', JObj [(''message'', JStr ''Internal server error'')])]\<rparr>)"
  by code_simp

end
